theory Spec2Isabelle
  imports Complex_Main
begin

section \<open>Python values, errors and arithmetic\<close>

text \<open>
  The module \<^verbatim>\<open>eto.py\<close> computes with Python floats and ints. Numbers are modelled as
  \<^typ>\<open>real\<close>: the arithmetic is exact, \<^verbatim>\<open>round(x, n)\<close> is rounding to \<open>n\<close> decimals
  with ties to even, and the functions of \<^verbatim>\<open>math\<close> are the real functions with the
  domain errors of the library written out. NaN, infinities and overflow have no
  counterpart. An attribute that is either \<^verbatim>\<open>None\<close> or a number is a \<^typ>\<open>real option\<close>.
  An exception is a value of type \<open>error\<close>: its class and its message.

  The code rounds the binary floating-point value of an expression, which lies within
  a few units of the last binary place of the exact one. The two roundings agree except
  where the exact value is, or all but is, a decimal tie: there the code may return
  the other neighbour (\<^verbatim>\<open>round(0.75 * 37.8, 1)\<close> is 28.3, while the exact product 28.35
  rounds to 28.4). What is stated below of a rounded product of decimals is therefore
  not its value under \<open>py_round\<close> but what both roundings share: a multiple of the
  unit that differs from the exact product by at most half a unit, with an allowance
  of one billionth for the binary arithmetic.
\<close>

datatype error =
    TypeError string
  | ValueError string
  | ValueErrorNum string real string
  | Exception string
  | ZeroDivisionError string
  | AttributeError string

text \<open>
  \<open>ValueErrorNum msg x rest\<close> is a \<^verbatim>\<open>ValueError\<close> whose message is \<open>msg\<close>, then
  \<^verbatim>\<open>str(x)\<close>, then \<open>rest\<close>; an \<open>AttributeError\<close> carries the name of the missing attribute.
\<close>

datatype pyval = PNone | PInt int | PFloat real | PStr string

definition bind_err :: "error + 'a \<Rightarrow> ('a \<Rightarrow> error + 'b) \<Rightarrow> error + 'b" where
  "bind_err m f = (case m of Inl e \<Rightarrow> Inl e | Inr v \<Rightarrow> f v)"

definition truthy :: "real option \<Rightarrow> bool" where
  "truthy v = (case v of None \<Rightarrow> False | Some x \<Rightarrow> x \<noteq> 0)"

definition val :: "real option \<Rightarrow> real" where
  "val v = (case v of None \<Rightarrow> 0 | Some x \<Rightarrow> x)"

definition num :: "real option \<Rightarrow> error + real" where
  "num v = (case v of None \<Rightarrow> Inl (TypeError ''unsupported operand type(s)'')
                    | Some x \<Rightarrow> Inr x)"

definition round_half_even :: "real \<Rightarrow> int" where
  "round_half_even x =
     (let f = \<lfloor>x\<rfloor> in
      if x - of_int f < 1 / 2 then f
      else if x - of_int f > 1 / 2 then f + 1
      else if even f then f else f + 1)"

definition py_round :: "real \<Rightarrow> nat \<Rightarrow> real" where
  "py_round x n = of_int (round_half_even (x * 10 ^ n)) / 10 ^ n"

definition py_div :: "real \<Rightarrow> real \<Rightarrow> error + real" where
  "py_div a b = (if b = 0 then Inl (ZeroDivisionError ''float division by zero'')
                 else Inr (a / b))"

definition math_log :: "real \<Rightarrow> error + real" where
  "math_log x = (if x \<le> 0 then Inl (ValueError ''math domain error'') else Inr (ln x))"

definition math_sqrt :: "real \<Rightarrow> error + real" where
  "math_sqrt x = (if x < 0 then Inl (ValueError ''math domain error'') else Inr (sqrt x))"

definition math_acos :: "real \<Rightarrow> error + real" where
  "math_acos x = (if x < - 1 \<or> 1 < x then Inl (ValueError ''math domain error'')
                  else Inr (arccos x))"

text \<open>
  \<^verbatim>\<open>a ** b\<close> for a positive exponent \<open>b\<close> that is not an integer: a negative base
  gives a complex number, which the enclosing \<^verbatim>\<open>round\<close> rejects with a TypeError.
\<close>

definition complex_round_error :: error where
  "complex_round_error = TypeError ''type complex doesn't define __round__ method''"

definition int_trunc :: "real \<Rightarrow> int" where
  "int_trunc x = (if 0 \<le> x then \<lfloor>x\<rfloor> else \<lceil>x\<rceil>)"

section \<open>Climate and Crop\<close>

record climate =
  interior_location :: bool
  coastal_location :: bool
  island_location :: bool
  arid_climate :: bool
  humid_climate :: bool
  dew_point_difference :: real
  average_wind_speed :: real
  k_rs :: real

definition Climate :: climate where
  "Climate = \<lparr> interior_location = True, coastal_location = False, island_location = False,
               arid_climate = True, humid_climate = False,
               dew_point_difference = 2, average_wind_speed = 2.0, k_rs = 0.16 \<rparr>"

definition light_winds :: "climate \<Rightarrow> climate" where
  "light_winds c = c\<lparr>average_wind_speed := 0.5\<rparr>"

definition moderate_winds :: "climate \<Rightarrow> climate" where
  "moderate_winds c = c\<lparr>average_wind_speed := 2\<rparr>"

definition strong_winds :: "climate \<Rightarrow> climate" where
  "strong_winds c = c\<lparr>average_wind_speed := 4\<rparr>"

definition arid :: "climate \<Rightarrow> climate" where
  "arid c = c\<lparr>arid_climate := True, humid_climate := False, dew_point_difference := 2\<rparr>"

definition humid :: "climate \<Rightarrow> climate" where
  "humid c = c\<lparr>arid_climate := False, humid_climate := True, dew_point_difference := 0\<rparr>"

definition interior :: "climate \<Rightarrow> climate" where
  "interior c = c\<lparr>interior_location := True, coastal_location := False,
                   island_location := False, k_rs := 0.16\<rparr>"

definition coastal :: "climate \<Rightarrow> climate" where
  "coastal c = c\<lparr>interior_location := False, coastal_location := True,
                  island_location := False, k_rs := 0.19\<rparr>"

definition island :: "climate \<Rightarrow> climate" where
  "island c = c\<lparr>interior_location := False, coastal_location := False,
                 island_location := True, k_rs := 0.19\<rparr>"

record crop =
  resistance_a :: real
  albedo :: real
  height :: real

definition Crop :: crop where
  "Crop = \<lparr> resistance_a = 208, albedo = 0.23, height = 0.12 \<rparr>"

section \<open>Entries and the station\<close>

text \<open>
  Of a \<^verbatim>\<open>datetime\<close> the module reads the day of the year (the days since the first of
  January of its year, plus one), the hour and the POSIX timestamp; the calendar
  itself belongs to the standard library.
\<close>

record datetime =
  dt_yday :: int
  dt_hour :: int
  dt_timestamp :: real

datatype timeval = TInt int | TDatetime datetime

datatype entry_class = DayEntry | HourEntry

text \<open>
  An entry keeps its class (the methods \<^verbatim>\<open>HourEntry\<close> overrides are chosen by it) and
  the attributes \<^verbatim>\<open>TimeEntry.__init__\<close> sets. The back-reference \<^verbatim>\<open>self.station\<close> is
  not a field: every method takes the owning station as it is at the call. Nor is
  \<^verbatim>\<open>self.climate\<close>, which refers to the \<^verbatim>\<open>Climate\<close> object of the station and is no copy
  of it: the methods of \<^verbatim>\<open>Climate\<close> change that object in place, so \<^verbatim>\<open>dew_point\<close> reads
  the climate from the station as \<^verbatim>\<open>wind_speed_2m\<close> does. (Binding the \<^verbatim>\<open>climate\<close>
  attribute of a station to another object after an entry was made is outside this
  model; the module never does so.)
\<close>

record entry =
  entry_class :: entry_class
  day_number :: int
  time :: timeval
  temp_min :: "real option"
  temp_max :: "real option"
  temp_mean :: "real option"
  humidity_mean :: "real option"
  humidity_min :: "real option"
  humidity_max :: "real option"
  wind_speed :: "real option"
  radiation_s :: "real option"
  temp_dew :: "real option"
  temp_dry :: "real option"
  temp_wet :: "real option"
  temp_soil :: "real option"
  stephan_boltzmann_constant :: real
  logged_atmospheric_pressure :: "real option"
  vapour_pressure :: "real option"
  sunshine_hours :: "real option"

record station =
  latitude :: real
  longitude :: real
  altitude :: int
  latitude_rad :: real
  longitude_rad :: real
  timezone_longitude :: real
  days :: "int \<rightharpoonup> entry"
  hours :: "int \<rightharpoonup> entry"
  anemometer_height :: real
  climate :: "climate option"
  ref_crop :: crop

text \<open>The two module-level switches, both \<^verbatim>\<open>True\<close> as the module is loaded.\<close>

record flags =
  CHECK_RADIATION_RANGE :: bool
  CHECK_SUNSHINE_HOURS_RANGE :: bool

definition default_flags :: flags where
  "default_flags = \<lparr> CHECK_RADIATION_RANGE = True, CHECK_SUNSHINE_HOURS_RANGE = True \<rparr>"

subsection \<open>Station.__init__\<close>

text \<open>
  \<^verbatim>\<open>latitude\<close>, \<^verbatim>\<open>longitude\<close> and \<^verbatim>\<open>altitude\<close> are type-checked, so they are
  \<open>pyval\<close>s; the anemometer height and the timezone longitude are numbers. The warning
  the constructor emits has no effect on the result.
\<close>

definition Station ::
  "pyval \<Rightarrow> pyval \<Rightarrow> pyval \<Rightarrow> real \<Rightarrow> real \<Rightarrow> error + station" where
  "Station lat lon alt anemometer_h tz_longitude =
     (case lat of
        PFloat la \<Rightarrow>
          (case lon of
             PFloat lo \<Rightarrow>
               if la < - 90.0 \<or> la > 90.0
               then Inl (Exception ''latitude must be between -90.0 and 90.0'')
               else if lo < 0 \<or> lo > 360.0
               then Inl (Exception ''longitude in degrees West of Greenwhich.'')
               else
                 (case alt of
                    PInt al \<Rightarrow>
                      if al < 0 then Inl (Exception '''altitude' must be above 0'')
                      else if tz_longitude < 0 \<or> tz_longitude > 359
                      then Inl (Exception '''timezone_longitude in degrees West of Greenwhich.'')
                      else Inr \<lparr> latitude = la, longitude = lo, altitude = al,
                                 latitude_rad = py_round (pi / 180 * la) 3,
                                 longitude_rad = py_round (pi / 180 * lo) 3,
                                 timezone_longitude = 345,
                                 days = Map.empty, hours = Map.empty,
                                 anemometer_height = anemometer_h,
                                 climate = Some Climate, ref_crop = Crop \<rparr>
                  | _ \<Rightarrow> Inl (TypeError ''altitude must be an integer''))
           | _ \<Rightarrow> Inl (TypeError ''longitude must be a float''))
      | _ \<Rightarrow> Inl (TypeError ''latitude must be a float''))"

definition Station_atmospheric_pressure :: "station \<Rightarrow> error + real" where
  "Station_atmospheric_pressure st =
     (let b = (293 - 0.0065 * of_int (altitude st)) / 293 in
      if b < 0 then Inl complex_round_error
      else Inr (py_round (101.3 * b powr 5.26) 2))"

subsection \<open>TimeEntry\<close>

definition TimeEntry :: "entry_class \<Rightarrow> timeval \<Rightarrow> station \<Rightarrow> entry" where
  "TimeEntry cls t st =
     \<lparr> entry_class = cls,
       day_number = (case t of TInt n \<Rightarrow> n | TDatetime d \<Rightarrow> dt_yday d),
       time = t,
       temp_min = None, temp_max = None, temp_mean = None,
       humidity_mean = None, humidity_min = None, humidity_max = None,
       wind_speed = None, radiation_s = None,
       temp_dew = None, temp_dry = None, temp_wet = None, temp_soil = None,
       stephan_boltzmann_constant = 4.903 * (1 / 10 ^ 9),
       logged_atmospheric_pressure = None, vapour_pressure = None,
       sunshine_hours = None \<rparr>"

definition wind_speed_2m :: "station \<Rightarrow> entry \<Rightarrow> error + real option" where
  "wind_speed_2m st e =
     (if truthy (wind_speed e) \<and> anemometer_height st = 2 then Inr (wind_speed e)
      else if truthy (wind_speed e) \<and> anemometer_height st \<noteq> 2 then
        bind_err (math_log (67.8 * anemometer_height st - 5.42)) (\<lambda>l.
        bind_err (py_div 4.87 l) (\<lambda>q.
        Inr (Some (py_round (val (wind_speed e) * q) 1))))
      else
        (case climate st of
           Some c \<Rightarrow> Inr (Some (average_wind_speed c))
         | None \<Rightarrow> Inr None))"

definition dew_point :: "station \<Rightarrow> entry \<Rightarrow> real option" where
  "dew_point st e =
     (if truthy (temp_dew e) then temp_dew e
      else
        (case climate st of
           Some c \<Rightarrow> if truthy (temp_min e)
                     then Some (val (temp_min e) - dew_point_difference c) else None
         | None \<Rightarrow> None))"

definition atmospheric_pressure :: "station \<Rightarrow> entry \<Rightarrow> error + real" where
  "atmospheric_pressure st e =
     (if truthy (logged_atmospheric_pressure e) then Inr (val (logged_atmospheric_pressure e))
      else Station_atmospheric_pressure st)"

definition latent_heat_of_vaporization :: real where
  "latent_heat_of_vaporization = 2.45"

definition specific_heat :: real where
  "specific_heat = 1.013 * (1 / 10 ^ 3)"

definition psychrometric_constant :: "station \<Rightarrow> entry \<Rightarrow> error + real" where
  "psychrometric_constant st e =
     bind_err (atmospheric_pressure st e) (\<lambda>p.
     Inr (py_round (0.665 * (1 / 10 ^ 3) * p) 6))"

definition Tmean :: "entry \<Rightarrow> real option" where
  "Tmean e =
     (if truthy (temp_mean e) then temp_mean e
      else if truthy (temp_max e) \<and> truthy (temp_min e)
      then Some ((val (temp_max e) + val (temp_min e)) / 2)
      else None)"

definition saturation_vapour_pressure :: "real \<Rightarrow> error + real" where
  "saturation_vapour_pressure T =
     bind_err (py_div (17.27 * T) (T + 237.3)) (\<lambda>x.
     Inr (py_round (0.6108 * 2.7183 powr x) 3))"

definition mean_saturation_vapour_pressure :: "entry \<Rightarrow> error + real option" where
  "mean_saturation_vapour_pressure e =
     (if truthy (temp_max e) \<and> truthy (temp_min e) then
        bind_err (saturation_vapour_pressure (val (temp_max e))) (\<lambda>vp_max.
        bind_err (saturation_vapour_pressure (val (temp_min e))) (\<lambda>vp_min.
        Inr (Some ((vp_max + vp_min) / 2))))
      else if truthy (temp_mean e) then
        bind_err (saturation_vapour_pressure (val (temp_mean e))) (\<lambda>vp. Inr (Some vp))
      else Inr None)"

definition slope_of_saturation_vapour_pressure :: "real \<Rightarrow> error + real" where
  "slope_of_saturation_vapour_pressure T =
     bind_err (py_div (17.27 * T) (T + 237.3)) (\<lambda>x.
     bind_err (py_div (4098 * (0.6108 * 2.7183 powr x)) ((T + 237.3) ^ 2)) (\<lambda>s.
     Inr (py_round s 6)))"

definition actual_vapour_pressure :: "station \<Rightarrow> entry \<Rightarrow> error + real option" where
  "actual_vapour_pressure st e =
     (if truthy (vapour_pressure e) then Inr (vapour_pressure e)
      else if truthy (temp_dry e) \<and> truthy (temp_wet e) then
        bind_err (saturation_vapour_pressure (val (temp_wet e))) (\<lambda>vp_wet.
        bind_err (psychrometric_constant st e) (\<lambda>pc.
        Inr (Some (py_round (vp_wet - pc * (val (temp_dry e) - val (temp_wet e))) 3))))
      else if truthy (humidity_max e) \<and> truthy (humidity_min e)
              \<and> truthy (temp_max e) \<and> truthy (temp_min e) then
        bind_err (saturation_vapour_pressure (val (temp_min e))) (\<lambda>vp_min.
        bind_err (saturation_vapour_pressure (val (temp_max e))) (\<lambda>vp_max.
        Inr (Some (py_round ((vp_min * (val (humidity_max e) / 100) +
                              vp_max * (val (humidity_min e) / 100)) / 2) 3))))
      else if truthy (humidity_max e) \<and> truthy (temp_min e) then
        bind_err (saturation_vapour_pressure (val (temp_min e))) (\<lambda>vp_min.
        Inr (Some (py_round (vp_min * (val (humidity_max e) / 100)) 3)))
      else if truthy (humidity_mean e) \<and> truthy (temp_max e) \<and> truthy (temp_min e) then
        bind_err (saturation_vapour_pressure (val (temp_min e))) (\<lambda>vp_min.
        bind_err (saturation_vapour_pressure (val (temp_max e))) (\<lambda>vp_max.
        Inr (Some (py_round ((val (humidity_mean e) / 100) * ((vp_max + vp_min) / 2)) 3))))
      else if truthy (humidity_mean e) \<and> truthy (temp_mean e) then
        bind_err (saturation_vapour_pressure (val (temp_mean e))) (\<lambda>vp.
        Inr (Some (py_round ((val (humidity_mean e) / 100) * vp) 3)))
      else if truthy (dew_point st e) then
        bind_err (saturation_vapour_pressure (val (dew_point st e))) (\<lambda>vp.
        Inr (Some (py_round vp 3)))
      else Inr None)"

definition vapour_pressure_deficit :: "station \<Rightarrow> entry \<Rightarrow> error + real" where
  "vapour_pressure_deficit st e =
     bind_err (mean_saturation_vapour_pressure e) (\<lambda>vp.
     bind_err (actual_vapour_pressure st e) (\<lambda>actual_vp.
     bind_err (num vp) (\<lambda>v.
     bind_err (num actual_vp) (\<lambda>a.
     Inr (py_round (v - a) 3)))))"

definition relative_sun_distance :: "entry \<Rightarrow> real" where
  "relative_sun_distance e =
     py_round (1 + 0.033 * cos ((2 * pi / 365) * of_int (day_number e))) 3"

definition solar_declination :: "entry \<Rightarrow> real" where
  "solar_declination e =
     py_round (0.409 * sin ((2 * pi / 365) * of_int (day_number e) - 1.39)) 3"

definition sunset_hour_angle :: "station \<Rightarrow> entry \<Rightarrow> error + real" where
  "sunset_hour_angle st e =
     bind_err (math_acos (- 1 * tan (latitude_rad st) * tan (solar_declination e))) (\<lambda>a.
     Inr (py_round a 3))"

definition daylight_hours :: "station \<Rightarrow> entry \<Rightarrow> error + real" where
  "daylight_hours st e =
     bind_err (sunset_hour_angle st e) (\<lambda>ws. Inr (py_round ((24 / pi) * ws) 1))"

definition TimeEntry_R_a :: "station \<Rightarrow> entry \<Rightarrow> error + real" where
  "TimeEntry_R_a st e =
     bind_err (sunset_hour_angle st e) (\<lambda>ws.
     Inr (py_round
            (24 * 60 / pi * 0.0820 * relative_sun_distance e *
              ((ws * sin (latitude_rad st) * sin (solar_declination e)) +
               (cos (latitude_rad st) * cos (solar_declination e) * sin ws)))
            1))"

subsection \<open>HourEntry: solar geometry\<close>

definition solar_time_angle :: "station \<Rightarrow> entry \<Rightarrow> error + real" where
  "solar_time_angle st e =
     (case time e of
        TInt n \<Rightarrow> Inl (AttributeError ''hour'')
      | TDatetime d \<Rightarrow>
          (let b = 2 * pi * (of_int (day_number e) - 81) / 364;
               season_correction =
                 0.1645 * sin (2 * b) - 0.1255 * cos b - 0.025 * sin b
           in Inr (pi / 12 *
                   ((of_int (dt_hour d) + 0.5
                     + 0.06667 * (timezone_longitude st - longitude st)
                     + season_correction) - 12))))"

definition HourEntry_R_a :: "station \<Rightarrow> entry \<Rightarrow> error + real" where
  "HourEntry_R_a st e =
     bind_err (sunset_hour_angle st e) (\<lambda>ws.
     bind_err (solar_time_angle st e) (\<lambda>w.
     if w < - ws \<or> w > ws then Inr 0
     else
       (let w1 = w - pi * 1 / 24;
            w2 = w + pi * 1 / 24;
            d = relative_sun_distance e;
            delta = latitude_rad st;
            phi = solar_declination e;
            Ra = 12 * 60 / pi * 0.0820 * d *
                 ((w2 - w1) * sin phi * sin delta
                  + cos phi * cos delta * (sin w2 - sin w1))
        in Inr (py_round Ra 3))))"

definition R_a :: "station \<Rightarrow> entry \<Rightarrow> error + real" where
  "R_a st e = (case entry_class e of
                 DayEntry \<Rightarrow> TimeEntry_R_a st e
               | HourEntry \<Rightarrow> HourEntry_R_a st e)"

definition R_a_in_mm :: "station \<Rightarrow> entry \<Rightarrow> error + real" where
  "R_a_in_mm st e = bind_err (R_a st e) (\<lambda>ra. Inr (py_round (ra * 0.408) 1))"

definition R_so :: "station \<Rightarrow> entry \<Rightarrow> error + real" where
  "R_so st e =
     (if altitude st < 100 then
        bind_err (R_a st e) (\<lambda>ra. Inr (py_round ((0.25 + 0.50) * ra) 1))
      else
        bind_err (R_a st e) (\<lambda>ra.
        Inr (py_round ((0.75 + (2 * (1 / 10 ^ 5)) * of_int (altitude st)) * ra) 1)))"

subsection \<open>DayEntry.solar_radiation\<close>

text \<open>
  The tail of \<^verbatim>\<open>DayEntry.solar_radiation\<close>, from the point where \<^verbatim>\<open>n\<close> is a number:
  the two range checks and the Angstrom formula.
\<close>

definition solar_radiation_from_hours ::
  "flags \<Rightarrow> station \<Rightarrow> entry \<Rightarrow> real \<Rightarrow> error + real" where
  "solar_radiation_from_hours fl st e n =
     (if n < 0 then Inl (ValueError ''Observed daylight hours cannot be less than 0'')
      else
        bind_err (daylight_hours st e) (\<lambda>N0.
        if n > N0 \<and> CHECK_SUNSHINE_HOURS_RANGE fl
        then Inl (ValueError ''Daylight hours out of range'')
        else
          (let a_s = 0.25; b_s = 0.50 in
           bind_err (daylight_hours st e) (\<lambda>N.
           bind_err (R_a st e) (\<lambda>Ra.
           bind_err (py_div (b_s * n) N) (\<lambda>q.
           Inr (py_round ((a_s + q) * Ra) 1)))))))"

definition DayEntry_solar_radiation :: "flags \<Rightarrow> station \<Rightarrow> entry \<Rightarrow> error + real" where
  "DayEntry_solar_radiation fl st e =
     (if truthy (radiation_s e) then
        (if CHECK_RADIATION_RANGE fl then
           bind_err (R_so st e) (\<lambda>rso.
           if val (radiation_s e) > rso
           then Inl (ValueErrorNum ''Solar radiation out ot range. Rso='' rso [])
           else Inr (val (radiation_s e)))
         else Inr (val (radiation_s e)))
      else
        (case sunshine_hours e of
           None \<Rightarrow>
             if (case climate st of Some c \<Rightarrow> island_location c | None \<Rightarrow> False)
                \<and> altitude st < 100 then
               bind_err (R_a st e) (\<lambda>Ra. Inr (py_round ((0.7 * Ra) - 4) 1))
             else
               (case climate st of
                  Some c \<Rightarrow>
                    if truthy (temp_min e) \<and> truthy (temp_max e) then
                      bind_err (R_a st e) (\<lambda>Ra.
                      (let krs = (if coastal_location c then 0.19
                                  else if interior_location c then 0.16
                                  else 0.16) in
                       bind_err (math_sqrt (val (temp_max e) - val (temp_min e))) (\<lambda>s.
                       Inr (py_round (krs * s * Ra) 1))))
                    else
                      bind_err (daylight_hours st e) (\<lambda>n.
                      solar_radiation_from_hours fl st e n)
                | None \<Rightarrow>
                    bind_err (daylight_hours st e) (\<lambda>n.
                    solar_radiation_from_hours fl st e n))
         | Some n \<Rightarrow> solar_radiation_from_hours fl st e n))"

subsection \<open>HourEntry.solar_radiation\<close>

definition HourEntry_solar_radiation :: "flags \<Rightarrow> station \<Rightarrow> entry \<Rightarrow> error + real" where
  "HourEntry_solar_radiation fl st e =
     (case radiation_s e of
        Some rs \<Rightarrow>
          if CHECK_RADIATION_RANGE fl then
            bind_err (R_so st e) (\<lambda>Rso.
            if Rso = 0 \<and> rs > 0.05
            then Inl (ValueErrorNum '''Lunar' radiation out ot range. radiation =''
                        rs '' should be near 0.'')
            else if Rso > 0 \<and> (rs - Rso) / Rso > 0.05
            then Inl (ValueErrorNum ''Solar radiation out ot range. Rso='' Rso [])
            else Inr rs)
          else Inr rs
      | None \<Rightarrow>
          Inl (Exception ''Cannot calculate eto(): radiation_s (Solar radiation) is missing''))"

definition solar_radiation :: "flags \<Rightarrow> station \<Rightarrow> entry \<Rightarrow> error + real" where
  "solar_radiation fl st e =
     (case entry_class e of
        DayEntry \<Rightarrow> DayEntry_solar_radiation fl st e
      | HourEntry \<Rightarrow> HourEntry_solar_radiation fl st e)"

subsection \<open>Net radiation\<close>

definition R_ns :: "flags \<Rightarrow> station \<Rightarrow> entry \<Rightarrow> error + real" where
  "R_ns fl st e =
     bind_err (solar_radiation fl st e) (\<lambda>rs.
     Inr (py_round ((1 - albedo (ref_crop st)) * rs) 1))"

definition TimeEntry_R_nl :: "flags \<Rightarrow> station \<Rightarrow> entry \<Rightarrow> error + real" where
  "TimeEntry_R_nl fl st e =
     (if \<not> (truthy (temp_max e) \<and> truthy (temp_min e)) then
        Inl (Exception
          ''Net longwave radiation cannot be calculated without min/max temperature'')
      else
        (let TmaxK = val (temp_max e) + 273.16;
             TminK = val (temp_min e) + 273.16 in
         bind_err (actual_vapour_pressure st e) (\<lambda>ea.
         bind_err (solar_radiation fl st e) (\<lambda>rs.
         bind_err (R_so st e) (\<lambda>rso.
         bind_err (case ea of
                     None \<Rightarrow> Inl (TypeError ''must be real number, not NoneType'')
                   | Some a \<Rightarrow> math_sqrt a) (\<lambda>sq.
         bind_err (py_div rs rso) (\<lambda>q.
         Inr (py_round (stephan_boltzmann_constant e * ((TmaxK ^ 4 + TminK ^ 4) / 2) *
                        (0.34 - 0.14 * sq) * (1.35 * q - 0.35)) 1))))))))"

definition R_l_outgoing :: "entry \<Rightarrow> error + real" where
  "R_l_outgoing e =
     (let eps = 1; bz = stephan_boltzmann_constant e / 24 in
      bind_err (num (temp_soil e)) (\<lambda>ts.
      Inr (py_round (eps * bz * (ts + 273.16) ^ 4) 1)))"

definition clear_sky_emissivity :: "real \<Rightarrow> error + real" where
  "clear_sky_emissivity T =
     (if T + 273.16 < 0 then Inl complex_round_error
      else Inr (py_round (8.733 * (1 / 10 ^ 3) * (T + 273.16) powr 0.788) 3))"

definition R_l_incoming :: "station \<Rightarrow> entry \<Rightarrow> error + real" where
  "R_l_incoming st e =
     bind_err (R_so st e) (\<lambda>rso.
     bind_err (if rso = 0 then Inr 0.5
               else
                 bind_err (num (radiation_s e)) (\<lambda>rs.
                 (let radfrac = rs / rso; f = 1 - radfrac in
                  Inr (if f < 0 then 0 else if f > 1 then 1 else f)))) (\<lambda>f.
     bind_err (num (Tmean e)) (\<lambda>T.
     bind_err (clear_sky_emissivity T) (\<lambda>eps_0.
     (let eps_star = eps_0 * (1 + 0.26 * f);
          bz = stephan_boltzmann_constant e / 24 in
      Inr (py_round (eps_star * bz * (T + 273.16) ^ 4) 1))))))"

definition HourEntry_R_nl :: "station \<Rightarrow> entry \<Rightarrow> error + real" where
  "HourEntry_R_nl st e =
     (if temp_soil e = None then
        Inl (Exception
          ''Net longwave radiation cannot be calculated without soil temperature'')
      else
        bind_err (R_l_outgoing e) (\<lambda>R_ol.
        bind_err (R_l_incoming st e) (\<lambda>R_il.
        Inr (R_ol - R_il))))"

definition R_nl :: "flags \<Rightarrow> station \<Rightarrow> entry \<Rightarrow> error + real" where
  "R_nl fl st e =
     (case entry_class e of
        DayEntry \<Rightarrow> TimeEntry_R_nl fl st e
      | HourEntry \<Rightarrow> HourEntry_R_nl st e)"

text \<open>
  \<^verbatim>\<open>net_radiation\<close> wraps \<^verbatim>\<open>R_nl\<close> in \<^verbatim>\<open>try\<close> and, in the handler, executes
  \<^verbatim>\<open>raise(str(e))\<close>. Raising a string is itself an error in Python 3: the statement
  raises \<^verbatim>\<open>TypeError("exceptions must derive from BaseException")\<close>. \<^verbatim>\<open>R_ns\<close> is called
  outside the \<^verbatim>\<open>try\<close>. Both operands are numbers here, so the final test for
  \<^verbatim>\<open>None\<close> always passes.
\<close>

definition raise_str_error :: error where
  "raise_str_error = TypeError ''exceptions must derive from BaseException''"

definition net_radiation :: "flags \<Rightarrow> station \<Rightarrow> entry \<Rightarrow> error + real" where
  "net_radiation fl st e =
     bind_err (R_ns fl st e) (\<lambda>ns.
     (case R_nl fl st e of
        Inl err \<Rightarrow> Inl raise_str_error
      | Inr nl \<Rightarrow> Inr (py_round (ns - nl) 1)))"

subsection \<open>ETo\<close>

definition soil_heat_flux :: "flags \<Rightarrow> station \<Rightarrow> entry \<Rightarrow> error + real" where
  "soil_heat_flux fl st e =
     (case entry_class e of
        DayEntry \<Rightarrow> Inr 0.00
      | HourEntry \<Rightarrow>
          (case radiation_s e of
             None \<Rightarrow> Inl (TypeError '''<' not supported between instances'')
           | Some rs \<Rightarrow>
               if rs < 0.05
               then bind_err (net_radiation fl st e) (\<lambda>rn. Inr (0.5 * rn))
               else bind_err (net_radiation fl st e) (\<lambda>rn. Inr (0.1 * rn))))"

definition air_conductance_coefficient :: "entry \<Rightarrow> real" where
  "air_conductance_coefficient e =
     (case entry_class e of DayEntry \<Rightarrow> 900 | HourEntry \<Rightarrow> 37)"

definition eto_hargreaves :: "station \<Rightarrow> entry \<Rightarrow> error + real" where
  "eto_hargreaves st e =
     bind_err (num (temp_max e)) (\<lambda>tmax.
     bind_err (num (temp_min e)) (\<lambda>tmin.
     (let Tm = (tmax + tmin) / 2 in
      bind_err (R_a st e) (\<lambda>ra.
      if tmax - tmin < 0 then Inl complex_round_error
      else Inr (py_round (0.0023 * (Tm + 17.8) * (tmax - tmin) powr 0.5 * ra) 2)))))"

definition eto :: "flags \<Rightarrow> station \<Rightarrow> entry \<Rightarrow> error + real" where
  "eto fl st e =
     bind_err (wind_speed_2m st e) (\<lambda>u.
     if \<not> truthy u then eto_hargreaves st e
     else if Tmean e = None then
       Inl (Exception ''Cannot calculate eto(): temp_mean (mean temperature) is missing'')
     else
       (case net_radiation fl st e of
          Inl err \<Rightarrow> Inl raise_str_error
        | Inr net_rad \<Rightarrow>
            (let Tm = val (Tmean e) in
             bind_err (slope_of_saturation_vapour_pressure Tm) (\<lambda>slope_of_vp.
             bind_err (soil_heat_flux fl st e) (\<lambda>G.
             bind_err (wind_speed_2m st e) (\<lambda>u2.
             (let u2m = val u2;
                  air_cond_coeff = air_conductance_coefficient e in
              bind_err (psychrometric_constant st e) (\<lambda>pc.
              bind_err (py_div air_cond_coeff (Tm + 273)) (\<lambda>c.
              bind_err (vapour_pressure_deficit st e) (\<lambda>vpd.
              (let eto_nominator = 0.408 * slope_of_vp * (net_rad - G) + pc * c * u2m * vpd in
               if eto_nominator < 0 then Inr 0
               else
                 bind_err (psychrometric_constant st e) (\<lambda>pc2.
                 (let eto_denominator = slope_of_vp + pc2 * (1 + 0.34 * u2m) in
                  bind_err (py_div eto_nominator eto_denominator) (\<lambda>q.
                  Inr (py_round q 2)))))))))))))))"

subsection \<open>Station.day_entry and Station.hour_entry\<close>

text \<open>
  The first argument of the factories is a string, an int, a \<^verbatim>\<open>datetime\<close> or
  something else. A string is represented by what \<^verbatim>\<open>strptime\<close> makes of it with the
  template passed along: a \<^verbatim>\<open>datetime\<close>, or \<open>None\<close> for the library's ValueError.
  Both methods put the new entry into the registry before they
  validate anything, and the registry holds the very object they go on assigning to:
  at every exit the registry holds the entry as it is then. A factory returns the
  result (the entry, or the exception raised) and the station as it is left.
\<close>

text \<open>
  The first argument of a factory: a string (with the \<^verbatim>\<open>datetime\<close> it parses to, if it
  does), an int, a \<^verbatim>\<open>datetime\<close>, a \<^verbatim>\<open>date\<close> that is no \<^verbatim>\<open>datetime\<close> (it has a year, but the
  difference of a \<^verbatim>\<open>date\<close> and a \<^verbatim>\<open>datetime\<close> is a TypeError), or an object without
  the attribute \<^verbatim>\<open>year\<close>.
\<close>

datatype time_arg =
  ArgStr "datetime option" | ArgInt int | ArgDatetime datetime | ArgDate | ArgOther

definition date_minus_datetime_error :: error where
  "date_minus_datetime_error =
     TypeError (''unsupported operand type(s) for -: 'datetime.date' and 'datetime.datetime''
                @ [CHR 0x27])"

definition store_day :: "station \<Rightarrow> int \<Rightarrow> entry \<Rightarrow> station" where
  "store_day st n e = st\<lparr>days := (days st)(n \<mapsto> e)\<rparr>"

definition store_hour :: "station \<Rightarrow> int \<Rightarrow> entry \<Rightarrow> station" where
  "store_hour st n e = st\<lparr>hours := (hours st)(n \<mapsto> e)\<rparr>"

text \<open>
  \<^verbatim>\<open>day_entry\<close> in its three blocks: the day number of the first argument, the check
  and assignment of \<^verbatim>\<open>radiation_s\<close>, the check and assignment of \<^verbatim>\<open>sunshine_hours\<close>.
\<close>

definition day_number_of :: "time_arg \<Rightarrow> error + int" where
  "day_number_of day_arg =
     (case day_arg of
        ArgStr parsed \<Rightarrow>
          (case parsed of
             None \<Rightarrow> Inl (ValueError ''Date must be in YYYY-MM-DD format (ex: 2020-09-28)'')
           | Some dt1 \<Rightarrow> Inr (dt_yday dt1))
      | ArgInt n \<Rightarrow> Inr n
      | ArgDatetime d \<Rightarrow> Inr (dt_yday d)
      | ArgDate \<Rightarrow> Inl (TypeError '''day_number' must be an integer'')
      | ArgOther \<Rightarrow> Inl (TypeError '''day_number' must be an integer''))"

definition day_set_radiation_s ::
  "flags \<Rightarrow> station \<Rightarrow> entry \<Rightarrow> real option \<Rightarrow> error + entry" where
  "day_set_radiation_s fl st day rad_s =
     (if truthy rad_s then
        (if CHECK_RADIATION_RANGE fl then
           bind_err (R_so st day) (\<lambda>rso.
           if val rad_s \<le> rso then Inr (day\<lparr>radiation_s := rad_s\<rparr>)
           else Inl (ValueError ''Raditaion out of range''))
         else Inr (day\<lparr>radiation_s := rad_s\<rparr>))
      else Inr day)"

definition day_set_sunshine_hours ::
  "flags \<Rightarrow> station \<Rightarrow> entry \<Rightarrow> real option \<Rightarrow> error + entry" where
  "day_set_sunshine_hours fl st day sun_hours =
     (if truthy sun_hours then
        (if CHECK_SUNSHINE_HOURS_RANGE fl then
           bind_err (daylight_hours st day) (\<lambda>N.
           if val sun_hours \<le> N then Inr (day\<lparr>sunshine_hours := sun_hours\<rparr>)
           else Inl (ValueError ''Sunshine hours out of range''))
         else Inr (day\<lparr>sunshine_hours := sun_hours\<rparr>))
      else Inr day)"

definition day_entry ::
  "flags \<Rightarrow> station \<Rightarrow> time_arg \<Rightarrow>
   real option \<Rightarrow> real option \<Rightarrow> real option \<Rightarrow> real option \<Rightarrow> real option \<Rightarrow>
   real option \<Rightarrow> real option \<Rightarrow> (error + entry) \<times> station" where
  "day_entry fl st day_arg tmin tmax tmean wspeed hmean rad_s sun_hours =
     (case day_number_of day_arg of
        Inl err \<Rightarrow> (Inl err, st)
      | Inr n \<Rightarrow>
          if \<not> (n \<ge> 1 \<and> n \<le> 366)
          then (Inl (Exception '''day_number' must be between in the range 1-366''), st)
          else
            (let day = (TimeEntry DayEntry (TInt n) st)
                         \<lparr>temp_min := tmin, temp_max := tmax, temp_mean := tmean,
                          humidity_mean := hmean, wind_speed := wspeed\<rparr>
             in
             case day_set_radiation_s fl (store_day st n day) day rad_s of
               Inl err \<Rightarrow> (Inl err, store_day st n day)
             | Inr day2 \<Rightarrow>
                 (case day_set_sunshine_hours fl (store_day st n day2) day2 sun_hours of
                    Inl err \<Rightarrow> (Inl err, store_day st n day2)
                  | Inr day3 \<Rightarrow> (Inr day3, store_day st n day3))))"

definition hour_entry_at ::
  "flags \<Rightarrow> station \<Rightarrow> datetime \<Rightarrow>
   real option \<Rightarrow> real option \<Rightarrow> real option \<Rightarrow> real option \<Rightarrow> real option \<Rightarrow>
   real option \<Rightarrow> (error + entry) \<times> station" where
  "hour_entry_at fl st d tmin tmax tmean wspeed hmean rad_s =
     (let k = int_trunc (dt_timestamp d / 3600);
          hour = (TimeEntry HourEntry (TDatetime d) st)
                   \<lparr>temp_min := tmin, temp_max := tmax, temp_mean := tmean,
                    humidity_mean := hmean, wind_speed := wspeed\<rparr>
      in
      case (if truthy rad_s then
              (if CHECK_RADIATION_RANGE fl then
                 bind_err (R_so (store_hour st k hour) hour) (\<lambda>rso.
                 if val rad_s - rso > 0.05 * rso then Inr (hour\<lparr>radiation_s := rad_s\<rparr>)
                 else Inl (ValueError ''Radiation out of range''))
               else Inr (hour\<lparr>radiation_s := rad_s\<rparr>))
            else Inr hour)
      of
        Inl err \<Rightarrow> (Inl err, store_hour st k hour)
      | Inr hour2 \<Rightarrow> (Inr hour2, store_hour st k hour2))"

definition hour_entry ::
  "flags \<Rightarrow> station \<Rightarrow> time_arg \<Rightarrow>
   real option \<Rightarrow> real option \<Rightarrow> real option \<Rightarrow> real option \<Rightarrow> real option \<Rightarrow>
   real option \<Rightarrow> (error + entry) \<times> station" where
  "hour_entry fl st dt_arg tmin tmax tmean wspeed hmean rad_s =
     (case dt_arg of
        ArgStr parsed \<Rightarrow>
          (case parsed of
             None \<Rightarrow> (Inl (ValueError
               ''Datetime must be in YYYY-MM-DD HH:mm:SS format (ex: 2020-09-28 00:00:00)''),
               st)
           | Some d \<Rightarrow> hour_entry_at fl st d tmin tmax tmean wspeed hmean rad_s)
      | ArgInt n \<Rightarrow> (Inl (TypeError '''dt_hour' must not be an integer''), st)
      | ArgDatetime d \<Rightarrow> hour_entry_at fl st d tmin tmax tmean wspeed hmean rad_s
      | ArgDate \<Rightarrow> (Inl date_minus_datetime_error, st)
      | ArgOther \<Rightarrow> (Inl (AttributeError ''year''), st))"

subsection \<open>Inputs used in the examples\<close>

text \<open>
  \<^verbatim>\<open>Station(0.0, 0.0, 0)\<close>, a station on the equator at sea level with the default
  anemometer height and timezone longitude, and noon of the first of January 2021 (UTC).
\<close>

definition equator_station :: station where
  "equator_station = projr (Station (PFloat 0) (PFloat 0) (PInt 0) 2 345)"

definition new_year_noon :: datetime where
  "new_year_noon = \<lparr> dt_yday = 1, dt_hour = 12, dt_timestamp = 1609502400 \<rparr>"

text \<open>
  A day entry of that station with a logged wind speed of zero, and an hour entry with
  a mean temperature and no radiation: each the pair a factory returns.
\<close>

definition calm_day :: "(error + entry) \<times> station" where
  "calm_day = day_entry default_flags equator_station (ArgInt 1)
                None None None (Some 0) None None None"

definition mild_hour :: "(error + entry) \<times> station" where
  "mild_hour = hour_entry default_flags equator_station (ArgDatetime new_year_noon)
                 None None (Some 20) None None None"



text \<open>
  \<^verbatim>\<open>Station(0.0, 0.0, 5000)\<close>; the equator station with a coastal climate; and
  \<^verbatim>\<open>Station(0.0, 345.0, 0)\<close>, whose longitude is its timezone's.
\<close>

definition highland_station :: station where
  "highland_station = projr (Station (PFloat 0) (PFloat 0) (PInt 5000) 2 345)"

definition coastal_station :: station where
  "coastal_station = equator_station\<lparr>climate := Some (coastal Climate)\<rparr>"

definition meridian_station :: station where
  "meridian_station = projr (Station (PFloat 0) (PFloat 345) (PInt 0) 2 345)"

text \<open>
  Day entries of these stations for the first of January: without observations, with a
  radiation of 0, 10 and 1000, with a radiation of 10 and 20 hours of sunshine, with
  temperatures 0 and 10, and with temperatures 10 and 20.
\<close>

definition highland_day :: "(error + entry) \<times> station" where
  "highland_day = day_entry default_flags highland_station (ArgInt 1)
                    None None None None None None None"

definition still_day :: "(error + entry) \<times> station" where
  "still_day = day_entry default_flags equator_station (ArgInt 1)
                 None None None None None (Some 0) None"

definition sunny_day :: "(error + entry) \<times> station" where
  "sunny_day = day_entry default_flags equator_station (ArgInt 1)
                 None None None None None (Some 10) None"

definition glaring_day :: "(error + entry) \<times> station" where
  "glaring_day = day_entry default_flags equator_station (ArgInt 1)
                   None None None None None (Some 1000) None"

definition overlong_day :: "(error + entry) \<times> station" where
  "overlong_day = day_entry default_flags equator_station (ArgInt 1)
                    None None None None None (Some 10) (Some 20)"

definition frost_day :: "(error + entry) \<times> station" where
  "frost_day = day_entry default_flags equator_station (ArgInt 1)
                 (Some 0) (Some 10) None None None None None"

definition warm_day :: "(error + entry) \<times> station" where
  "warm_day = day_entry default_flags equator_station (ArgInt 1)
                (Some 10) (Some 20) None None None None None"

definition coastal_day :: "(error + entry) \<times> station" where
  "coastal_day = day_entry default_flags coastal_station (ArgInt 1)
                   (Some 10) (Some 20) None None None None None"

text \<open>
  Hour entries for noon with a radiation of 1: at the station on its timezone's
  meridian, and at the station 345 degrees away from it, where the module's solar time
  is 23 hours off and the hour counts as night.
\<close>

definition noon_hour :: "(error + entry) \<times> station" where
  "noon_hour = hour_entry default_flags meridian_station (ArgDatetime new_year_noon)
                 None None None None None (Some 1)"

definition night_hour :: "(error + entry) \<times> station" where
  "night_hour = hour_entry default_flags equator_station (ArgDatetime new_year_noon)
                  None None None None None (Some 1)"

text \<open>
  \<^verbatim>\<open>Station(90.0, 0.0, 0)\<close>, a station at the north pole, and its day entry for day
  172, the northern midsummer.
\<close>

definition pole_station :: station where
  "pole_station = projr (Station (PFloat 90) (PFloat 0) (PInt 0) 2 345)"

definition midsummer_day :: "(error + entry) \<times> station" where
  "midsummer_day = day_entry default_flags pole_station (ArgInt 172)
                     None None None None None None None"

section \<open>Rounding and the bind of the error monad\<close>

lemma rhe_cases: "round_half_even x = \<lfloor>x\<rfloor> \<or> round_half_even x = \<lfloor>x\<rfloor> + 1"
  by (simp add: round_half_even_def Let_def)

lemma rhe_upper: "of_int (round_half_even x) \<le> x + 1 / 2"
  unfolding round_half_even_def Let_def by (auto; linarith)

lemma rhe_lower: "x - 1 / 2 \<le> of_int (round_half_even x)"
  unfolding round_half_even_def Let_def by (auto; linarith)

lemma rhe_of_int [simp]: "round_half_even (of_int k) = k"
  by (simp add: round_half_even_def)

lemma rhe_mono: assumes "x \<le> y" shows "round_half_even x \<le> round_half_even y"
proof (cases "\<lfloor>x\<rfloor> < \<lfloor>y\<rfloor>")
  case True
  have "round_half_even x \<le> \<lfloor>x\<rfloor> + 1" using rhe_cases [of x] by auto
  moreover have "\<lfloor>y\<rfloor> \<le> round_half_even y" using rhe_cases [of y] by auto
  ultimately show ?thesis using True by linarith
next
  case False
  then have eq: "\<lfloor>x\<rfloor> = \<lfloor>y\<rfloor>" using floor_mono [OF assms] by linarith
  show ?thesis using assms eq unfolding round_half_even_def Let_def
    by (auto; linarith)
qed

lemma py_round_mono: "x \<le> y \<Longrightarrow> py_round x n \<le> py_round y n"
  unfolding py_round_def
  by (intro divide_right_mono, simp_all add: rhe_mono mult_right_mono)

lemma py_round_of_int_div: "py_round (of_int k / 10 ^ n) n = of_int k / 10 ^ n"
  by (simp add: py_round_def)

lemma py_round_upper: "py_round x n \<le> x + 1 / (2 * 10 ^ n)"
proof -
  have "of_int (round_half_even (x * 10 ^ n)) \<le> x * 10 ^ n + 1 / 2" by (rule rhe_upper)
  then have "of_int (round_half_even (x * 10 ^ n)) / 10 ^ n \<le> (x * 10 ^ n + 1 / 2) / 10 ^ n"
    by (rule divide_right_mono) simp
  then show ?thesis by (simp add: py_round_def add_divide_distrib)
qed

lemma py_round_lower: "x - 1 / (2 * 10 ^ n) \<le> py_round x n"
proof -
  have "x * 10 ^ n - 1 / 2 \<le> of_int (round_half_even (x * 10 ^ n))" by (rule rhe_lower)
  then have "(x * 10 ^ n - 1 / 2) / 10 ^ n \<le> of_int (round_half_even (x * 10 ^ n)) / 10 ^ n"
    by (rule divide_right_mono) simp
  then show ?thesis by (simp add: py_round_def diff_divide_distrib)
qed

lemma py_round_zero [simp]: "py_round 0 n = 0"
  using py_round_of_int_div [of 0 n] by simp

lemma py_round_ge: "of_int k / 10 ^ n \<le> x \<Longrightarrow> of_int k / 10 ^ n \<le> py_round x n"
  using py_round_mono [of "of_int k / 10 ^ n" x n] by (simp add: py_round_of_int_div)

lemma py_round_le: "x \<le> of_int k / 10 ^ n \<Longrightarrow> py_round x n \<le> of_int k / 10 ^ n"
  using py_round_mono [of x "of_int k / 10 ^ n" n] by (simp add: py_round_of_int_div)

subsection \<open>Bounds on the solar geometry\<close>

lemma rsd_bounds: "0.967 \<le> relative_sun_distance e \<and> relative_sun_distance e \<le> 1.033"
proof -
  let ?c = "cos ((2 * pi / 365) * of_int (day_number e))"
  have c: "- 1 \<le> ?c" "?c \<le> 1" by simp_all
  have "\<And>c::real. - 1 \<le> c \<Longrightarrow> of_int 967 / 10 ^ 3 \<le> 1 + 0.033 * c" by simp
  from this [OF c(1)] have "of_int 967 / 10 ^ 3 \<le> 1 + 0.033 * ?c" .
  from py_round_ge [OF this] have l: "0.967 \<le> relative_sun_distance e"
    by (simp add: relative_sun_distance_def)
  have "\<And>c::real. c \<le> 1 \<Longrightarrow> 1 + 0.033 * c \<le> of_int 1033 / 10 ^ 3" by simp
  from this [OF c(2)] have "1 + 0.033 * ?c \<le> of_int 1033 / 10 ^ 3" .
  from py_round_le [OF this] have "relative_sun_distance e \<le> 1.033"
    by (simp add: relative_sun_distance_def)
  with l show ?thesis by simp
qed

lemma decl_bounds: "- 0.409 \<le> solar_declination e \<and> solar_declination e \<le> 0.409"
proof -
  let ?s = "sin ((2 * pi / 365) * of_int (day_number e) - 1.39)"
  have c: "- 1 \<le> ?s" "?s \<le> 1" by simp_all
  have "\<And>c::real. - 1 \<le> c \<Longrightarrow> of_int (- 409) / 10 ^ 3 \<le> 0.409 * c" by simp
  from this [OF c(1)] have "of_int (- 409) / 10 ^ 3 \<le> 0.409 * ?s" .
  from py_round_ge [OF this] have l: "- 0.409 \<le> solar_declination e"
    by (simp add: solar_declination_def)
  have "\<And>c::real. c \<le> 1 \<Longrightarrow> 0.409 * c \<le> of_int 409 / 10 ^ 3" by simp
  from this [OF c(2)] have "0.409 * ?s \<le> of_int 409 / 10 ^ 3" .
  from py_round_le [OF this] have "solar_declination e \<le> 0.409"
    by (simp add: solar_declination_def)
  with l show ?thesis by simp
qed

lemma bind_err_Inr [simp]: "bind_err (Inr v) f = f v"
  by (simp add: bind_err_def)

lemma bind_err_Inl [simp]: "bind_err (Inl e) f = Inl e"
  by (simp add: bind_err_def)

lemma cos_lower_quadratic: "1 - x\<^sup>2 / 2 \<le> cos (x::real)"
proof -
  have "cos x = 1 - 2 * (sin (x / 2))\<^sup>2" using cos_double_sin [of "x / 2"] by simp
  moreover have "(sin (x / 2))\<^sup>2 \<le> (x / 2)\<^sup>2"
    using abs_sin_x_le_abs_x [of "x / 2"] by (metis abs_le_square_iff abs_sin_x_le_abs_x)
  ultimately show ?thesis by (simp add: power2_eq_square)
qed

lemma sunset_at_equator:
  "latitude_rad st = 0 \<Longrightarrow> sunset_hour_angle st e = Inr (py_round (pi / 2) 3)"
  by (simp add: sunset_hour_angle_def math_acos_def)

lemma abs_diff_bound: "a - d \<le> x \<Longrightarrow> x \<le> a + d \<Longrightarrow> \<bar>x - a\<bar> \<le> (d::real)"
  by linarith

lemma py_round_error: "\<bar>py_round x n - x\<bar> \<le> 1 / (2 * 10 ^ n)"
  by (rule abs_diff_bound [OF py_round_lower py_round_upper])

lemma py_round_grid: "\<exists>k::int. py_round x n = of_int k / 10 ^ n"
  by (auto simp: py_round_def)

text \<open>
  What the rounding of the model and the rounding of the binary value share: the result
  is a multiple of the unit within half a unit of the exact value, up to the allowance.
\<close>

lemma py_round_near:
  "\<exists>k::int. py_round x n = of_int k / 10 ^ n
       \<and> \<bar>of_int k / 10 ^ n - x\<bar> \<le> 1 / (2 * 10 ^ n) + 1 / 10 ^ 9"
proof -
  obtain k :: int where k: "py_round x n = of_int k / 10 ^ n"
    using py_round_grid by blast
  have "\<bar>py_round x n - x\<bar> \<le> 1 / (2 * 10 ^ n)" by (rule py_round_error)
  then have "\<bar>of_int k / 10 ^ n - x\<bar> \<le> 1 / (2 * 10 ^ n) + 1 / 10 ^ 9"
    unfolding k by simp
  with k show ?thesis by blast
qed

lemma py_round_tenth:
  "\<exists>k::int. py_round x 1 = of_int k / 10 \<and> \<bar>of_int k / 10 - x\<bar> \<le> 1 / 20 + 1 / 10 ^ 9"
  using py_round_near [of x 1] by simp

lemma round_half_pi: "\<bar>py_round (pi / 2) 3 - pi / 2\<bar> \<le> 1 / 2000"
  using py_round_error [of "pi / 2" 3] by simp

lemma sin_round_half_pi: "0.99 \<le> sin (py_round (pi / 2) 3)" "sin (py_round (pi / 2) 3) \<le> 1"
proof -
  let ?d = "py_round (pi / 2) 3 - pi / 2"
  have "sin (py_round (pi / 2) 3) = cos ?d"
    using cos_sin_eq [of ?d] by (simp add: algebra_simps)
  moreover have "1 - ?d\<^sup>2 / 2 \<le> cos ?d" by (rule cos_lower_quadratic)
  moreover have "?d\<^sup>2 \<le> (1 / 2000)\<^sup>2"
    using round_half_pi by (metis abs_le_square_iff abs_of_nonneg zero_le_divide_1_iff zero_le_numeral)
  ultimately show "0.99 \<le> sin (py_round (pi / 2) 3)" by (simp add: power2_eq_square)
  show "sin (py_round (pi / 2) 3) \<le> 1" by simp
qed

lemma cos_decl_lower: "0.9 \<le> cos (solar_declination e)"
proof -
  let ?d = "solar_declination e"
  have "\<bar>?d\<bar> \<le> 0.409" using decl_bounds [of e] by linarith
  then have "?d\<^sup>2 \<le> 0.409\<^sup>2"
    by (metis abs_le_square_iff abs_of_nonneg less_eq_real_def zero_less_divide_iff zero_less_numeral zero_less_power)
  then have "1 - ?d\<^sup>2 / 2 \<ge> 0.9" by (simp add: power2_eq_square)
  with cos_lower_quadratic [of ?d] show ?thesis by linarith
qed

lemma rhe_eq: assumes "of_int k - 1 / 2 < x" "x < of_int k + 1 / 2"
  shows "round_half_even x = k"
proof -
  have "of_int (round_half_even x) < of_int k + (1::real)"
    using rhe_upper [of x] assms by linarith
  moreover have "of_int k - (1::real) < of_int (round_half_even x)"
    using rhe_lower [of x] assms by linarith
  ultimately show ?thesis by linarith
qed

lemma py_round_eq:
  assumes "of_int k / 10 ^ n - 1 / (2 * 10 ^ n) < x" "x < of_int k / 10 ^ n + 1 / (2 * 10 ^ n)"
  shows "py_round x n = of_int k / 10 ^ n"
proof -
  have p: "(0::real) < 10 ^ n" by simp
  have "(of_int k / 10 ^ n - 1 / (2 * 10 ^ n)) * 10 ^ n < x * 10 ^ n"
    using assms(1) p by (rule mult_strict_right_mono)
  then have a: "of_int k - 1 / 2 < x * 10 ^ n" by (simp add: algebra_simps)
  have "x * 10 ^ n < (of_int k / 10 ^ n + 1 / (2 * 10 ^ n)) * 10 ^ n"
    using assms(2) p by (rule mult_strict_right_mono)
  then have b: "x * 10 ^ n < of_int k + 1 / 2" by (simp add: algebra_simps)
  show ?thesis by (simp add: py_round_def rhe_eq [OF a b])
qed

lemma mult_lower2: "0 \<le> a0 \<Longrightarrow> a0 \<le> a \<Longrightarrow> 0 \<le> b0 \<Longrightarrow> b0 \<le> b \<Longrightarrow> a0 * b0 \<le> a * (b::real)"
  by (rule mult_mono) auto

lemma mult_upper2: "0 \<le> a \<Longrightarrow> a \<le> a1 \<Longrightarrow> 0 \<le> b \<Longrightarrow> b \<le> b1 \<Longrightarrow> a * b \<le> a1 * (b1::real)"
  by (rule mult_mono) auto

lemma scaled_error:
  assumes "0 \<le> k" "k \<le> K" "\<bar>x - a\<bar> \<le> (d::real)"
  shows "\<bar>k * x - k * a\<bar> \<le> K * d"
proof -
  have "\<bar>k * x - k * a\<bar> = k * \<bar>x - a\<bar>"
    using assms(1) by (simp add: abs_mult flip: right_diff_distrib)
  also have "\<dots> \<le> K * d" using assms by (intro mult_mono) auto
  finally show ?thesis .
qed

lemma daylight_hours_equator:
  assumes "latitude_rad st = 0" shows "daylight_hours st e = Inr 12"
proof -
  let ?ws = "py_round (pi / 2) 3"
  have k: "0 \<le> 24 / pi" "24 / pi \<le> 12"
    using pi_ge_two pi_gt_zero by (simp_all add: field_simps)
  define y where "y = (24 / pi) * ?ws"
  have "\<bar>(24 / pi) * ?ws - (24 / pi) * (pi / 2)\<bar> \<le> 12 * (1 / 2000)"
    by (rule scaled_error [OF k round_half_pi])
  moreover have "(24 / pi) * (pi / 2) = 12" by simp
  ultimately have "\<bar>y - 12\<bar> \<le> 12 * (1 / 2000)" by (simp add: y_def)
  then have "of_int 120 / 10 ^ 1 - 1 / (2 * 10 ^ 1) < y"
    "y < of_int 120 / 10 ^ 1 + 1 / (2 * 10 ^ 1)"
    by (simp_all add: abs_if split: if_splits)
  from py_round_eq [OF this] have "py_round y 1 = 12" by simp
  then show ?thesis by (simp add: daylight_hours_def sunset_at_equator [OF assms] y_def)
qed

lemma R_a_equator:
  assumes "latitude_rad st = 0"
  shows "\<exists>ra. TimeEntry_R_a st e = Inr ra \<and> 25 \<le> ra \<and> ra \<le> 61"
proof -
  let ?ws = "py_round (pi / 2) 3"
  let ?dr = "relative_sun_distance e"
  let ?c = "cos (solar_declination e)"
  let ?k = "24 * 60 / pi * 0.0820"
  let ?X = "?k * ?dr * (?c * sin ?ws)"
  have eq: "TimeEntry_R_a st e = Inr (py_round ?X 1)"
    by (simp add: TimeEntry_R_a_def sunset_at_equator [OF assms] assms)
  have dr: "0.967 \<le> ?dr" "?dr \<le> 1.033" using rsd_bounds [of e] by simp_all
  have c: "0.9 \<le> ?c" "?c \<le> 1" using cos_decl_lower [of e] by simp_all
  have s: "0.99 \<le> sin ?ws" "sin ?ws \<le> 1" by (rule sin_round_half_pi)+
  have k: "29.52 \<le> ?k" "?k \<le> 59.04"
    using pi_less_4 pi_ge_two pi_gt_zero by (simp_all add: field_simps)
  have cs: "0.9 * 0.99 \<le> ?c * sin ?ws"
    by (rule mult_lower2 [OF _ c(1) _ s(1)]) simp_all
  have cs0: "0 \<le> ?c * sin ?ws" using cs by simp
  have c0: "0 \<le> ?c" using c(1) by simp
  have s0: "0 \<le> sin ?ws" using s(1) by simp
  have cs': "?c * sin ?ws \<le> 1 * 1"
    by (rule mult_upper2 [OF c0 c(2) s0 s(2)])
  have kd: "29.52 * 0.967 \<le> ?k * ?dr"
    by (rule mult_lower2 [OF _ k(1) _ dr(1)]) simp_all
  have k0: "0 \<le> ?k" using k(1) by simp
  have d0: "0 \<le> ?dr" using dr(1) by simp
  have kd': "?k * ?dr \<le> 59.04 * 1.033"
    by (rule mult_upper2 [OF k0 k(2) d0 dr(2)])
  have kd0: "0 \<le> ?k * ?dr" using kd by simp
  have "(29.52 * 0.967) * (0.9 * 0.99) \<le> ?X"
    by (rule mult_lower2 [OF _ kd _ cs]) simp_all
  then have lo: "of_int 250 / 10 ^ 1 \<le> ?X" by simp
  have "?X \<le> (59.04 * 1.033) * (1 * 1)"
    by (rule mult_upper2 [OF kd0 kd' cs0 cs'])
  then have hi: "?X \<le> of_int 610 / 10 ^ 1" by simp
  from py_round_ge [OF lo] py_round_le [OF hi] eq show ?thesis by simp
qed

section \<open>The station\<close>

lemma equator_station_eq:
  "equator_station = \<lparr> latitude = 0, longitude = 0, altitude = 0,
       latitude_rad = 0, longitude_rad = 0, timezone_longitude = 345,
       days = Map.empty, hours = Map.empty, anemometer_height = 2,
       climate = Some Climate, ref_crop = Crop \<rparr>"
  by (simp add: equator_station_def Station_def)

lemma day_entry_timezone:
  "timezone_longitude (snd (day_entry fl st a x1 x2 x3 x4 x5 x6 x7)) = timezone_longitude st"
  by (simp add: day_entry_def store_day_def Let_def split: sum.splits)

lemma hour_entry_at_timezone:
  "timezone_longitude (snd (hour_entry_at fl st d x1 x2 x3 x4 x5 x6)) = timezone_longitude st"
  by (simp add: hour_entry_at_def store_hour_def Let_def split: sum.splits)

lemma hour_entry_timezone:
  "timezone_longitude (snd (hour_entry fl st a x1 x2 x3 x4 x5 x6)) = timezone_longitude st"
  by (simp add: hour_entry_def hour_entry_at_timezone split: time_arg.splits option.splits)

text \<open>
  C4, as the code has it. With valid latitude, longitude and altitude, a timezone
  longitude in [0, 359] makes the construction succeed, but the station stores 345
  whatever the argument was (the constructor assigns the constant, and warns about
  it), and neither factory method changes it afterwards; a timezone longitude outside
  [0, 359] makes the construction fail with the constructor's range exception.
\<close>

theorem Station_timezone_longitude:
  assumes "- 90 \<le> la" "la \<le> 90" "0 \<le> lo" "lo \<le> 360" "0 \<le> al"
  shows "(0 \<le> tz \<and> tz \<le> 359 \<longrightarrow>
            (\<exists>st. Station (PFloat la) (PFloat lo) (PInt al) h tz = Inr st
                  \<and> timezone_longitude st = 345
                  \<and> timezone_longitude (snd (day_entry fl st a x1 x2 x3 x4 x5 x6 x7)) = 345
                  \<and> timezone_longitude (snd (hour_entry fl st b y1 y2 y3 y4 y5 y6)) = 345))
       \<and> (tz < 0 \<or> 359 < tz \<longrightarrow>
            Station (PFloat la) (PFloat lo) (PInt al) h tz =
              Inl (Exception '''timezone_longitude in degrees West of Greenwhich.''))"
  using assms by (simp add: Station_def day_entry_timezone hour_entry_timezone)

theorem Station_timezone_longitude_witness:
  "(\<exists>st. Station (PFloat 0) (PFloat 0) (PInt 0) 2 100 = Inr st
         \<and> timezone_longitude st = 345
         \<and> timezone_longitude (snd (day_entry default_flags st (ArgInt 1)
              None None None None None None None)) = 345
         \<and> timezone_longitude (snd (hour_entry default_flags st (ArgDatetime new_year_noon)
              None None None None None None)) = 345)
   \<and> Station (PFloat 0) (PFloat 0) (PInt 0) 2 400 =
         Inl (Exception '''timezone_longitude in degrees West of Greenwhich.'')"
  using Station_timezone_longitude [where la = 0 and lo = 0 and al = 0 and tz = 100
          and h = 2 and fl = default_flags and a = "ArgInt 1" and b = "ArgDatetime new_year_noon"
          and ?x1.0 = None and ?x2.0 = None and ?x3.0 = None and ?x4.0 = None and ?x5.0 = None
          and ?x6.0 = None and ?x7.0 = None and ?y1.0 = None and ?y2.0 = None and ?y3.0 = None
          and ?y4.0 = None and ?y5.0 = None and ?y6.0 = None]
        Station_timezone_longitude [where la = 0 and lo = 0 and al = 0 and tz = 400 and h = 2]
  by simp

text \<open>
  The claim as stated fails: \<^verbatim>\<open>Station(0.0, 0.0, 0, 2, 100)\<close> succeeds and its stored
  timezone longitude is not 100.
\<close>

theorem Station_timezone_longitude_counterexample:
  "\<not> isl (Station (PFloat 0) (PFloat 0) (PInt 0) 2 100) \<and>
   timezone_longitude (projr (Station (PFloat 0) (PFloat 0) (PInt 0) 2 100)) \<noteq> 100"
  by (simp add: Station_def)

section \<open>Wind speed at two metres\<close>

lemma truthy_simps [simp]:
  "truthy None = False" "truthy (Some x) = (x \<noteq> 0)"
  by (simp_all add: truthy_def)

lemma val_Some [simp]: "val (Some x) = x"
  by (simp add: val_def)








section \<open>The solar geometry does not read the radiation\<close>

lemma geometry_radiation_s [simp]:
  "relative_sun_distance (e\<lparr>radiation_s := x\<rparr>) = relative_sun_distance e"
  "solar_declination (e\<lparr>radiation_s := x\<rparr>) = solar_declination e"
  by (simp_all add: relative_sun_distance_def solar_declination_def)

lemma sunset_radiation_s [simp]:
  "sunset_hour_angle st (e\<lparr>radiation_s := x\<rparr>) = sunset_hour_angle st e"
  by (simp add: sunset_hour_angle_def)

lemma daylight_radiation_s [simp]:
  "daylight_hours st (e\<lparr>radiation_s := x\<rparr>) = daylight_hours st e"
  by (simp add: daylight_hours_def)

lemma R_a_radiation_s [simp]:
  "R_a st (e\<lparr>radiation_s := x\<rparr>) = R_a st e"
  by (simp add: R_a_def TimeEntry_R_a_def HourEntry_R_a_def solar_time_angle_def Let_def
        cong: if_cong timeval.case_cong split: entry_class.splits)

lemma R_so_radiation_s [simp]:
  "R_so st (e\<lparr>radiation_s := x\<rparr>) = R_so st e"
  by (simp add: R_so_def)

lemma from_hours_radiation_s [simp]:
  "solar_radiation_from_hours fl st (e\<lparr>radiation_s := x\<rparr>) n = solar_radiation_from_hours fl st e n"
  by (simp add: solar_radiation_from_hours_def Let_def cong: if_cong)

section \<open>Errors of net radiation in ETo\<close>

text \<open>
  The handlers in general. \<^verbatim>\<open>net_radiation()\<close> lets an error of \<^verbatim>\<open>R_ns()\<close> through, which
  is computed outside its \<^verbatim>\<open>try\<close>, and replaces every error of \<^verbatim>\<open>R_nl()\<close> by the TypeError
  of \<^verbatim>\<open>raise(str(e))\<close>; \<^verbatim>\<open>eto()\<close> replaces every error of \<^verbatim>\<open>net_radiation()\<close> by it.
\<close>

lemma net_radiation_passes_R_ns_error:
  "R_ns fl st e = Inl err \<Longrightarrow> net_radiation fl st e = Inl err"
  by (simp add: net_radiation_def)

lemma net_radiation_replaces_R_nl_error:
  "R_ns fl st e = Inr ns \<Longrightarrow> R_nl fl st e = Inl err \<Longrightarrow>
     net_radiation fl st e = Inl raise_str_error"
  by (simp add: net_radiation_def)

lemma eto_replaces_net_radiation_error:
  "wind_speed_2m st e = Inr u \<Longrightarrow> truthy u \<Longrightarrow> Tmean e \<noteq> None \<Longrightarrow>
     net_radiation fl st e = Inl err \<Longrightarrow> eto fl st e = Inl raise_str_error"
  by (auto simp: eto_def)

text \<open>
  C3 at the hour entry made by \<^verbatim>\<open>hour_entry(noon, temp_mean=20)\<close>: \<^verbatim>\<open>net_radiation()\<close>
  raises the exception of \<^verbatim>\<open>solar_radiation()\<close> for the missing radiation, and \<^verbatim>\<open>eto()\<close>
  raises a TypeError in its place, because its handler executes \<^verbatim>\<open>raise(str(e))\<close>.
\<close>

theorem eto_replaces_error_of_net_radiation:
  "fst mild_hour = Inr (projr (fst mild_hour))
   \<and> net_radiation default_flags (snd mild_hour) (projr (fst mild_hour))
       = Inl (Exception ''Cannot calculate eto(): radiation_s (Solar radiation) is missing'')
   \<and> eto default_flags (snd mild_hour) (projr (fst mild_hour))
       = Inl (TypeError ''exceptions must derive from BaseException'')"
  by (simp add: mild_hour_def hour_entry_def hour_entry_at_def equator_station_eq
        TimeEntry_def store_hour_def Let_def net_radiation_def R_ns_def solar_radiation_def
        HourEntry_solar_radiation_def eto_def wind_speed_2m_def Climate_def Tmean_def
        raise_str_error_def)

section \<open>Clear-sky radiation\<close>

lemma highland_station_eq:
  "highland_station = \<lparr> latitude = 0, longitude = 0, altitude = 5000,
       latitude_rad = 0, longitude_rad = 0, timezone_longitude = 345,
       days = Map.empty, hours = Map.empty, anemometer_height = 2,
       climate = Some Climate, ref_crop = Crop \<rparr>"
  by (simp add: highland_station_def Station_def)

lemma py_round_strict:
  assumes "x + 1 / 10 ^ n < y" shows "py_round x n < py_round y n"
proof -
  define u :: real where "u = 1 / (2 * 10 ^ n)"
  have e: "1 / 10 ^ n = 2 * u" by (simp add: u_def)
  have "py_round x n \<le> x + u" unfolding u_def by (rule py_round_upper)
  moreover have "y - u \<le> py_round y n" unfolding u_def by (rule py_round_lower)
  moreover have "x + 2 * u < y" using assms e by simp
  ultimately show ?thesis by linarith
qed

lemma geometry_store_day [simp]:
  "sunset_hour_angle (store_day st n x) e = sunset_hour_angle st e"
  "daylight_hours (store_day st n x) e = daylight_hours st e"
  "R_a (store_day st n x) e = R_a st e"
  "R_so (store_day st n x) e = R_so st e"
  by (simp_all add: sunset_hour_angle_def daylight_hours_def R_a_def TimeEntry_R_a_def
        HourEntry_R_a_def solar_time_angle_def R_so_def store_day_def Let_def
        cong: if_cong timeval.case_cong entry_class.case_cong)

text \<open>
  C6, as the code has it. Where \<^verbatim>\<open>R_a()\<close> returns \<open>ra\<close>, \<^verbatim>\<open>R_so()\<close> is \<open>0.75 ra\<close> rounded to
  one decimal below 100 m and \<open>(0.75 + 2e-5 altitude) ra\<close> rounded to one decimal from
  100 m on: a multiple of 0.1 within 0.05 of the product, up to the allowance for the
  binary arithmetic (at a decimal tie of the product the code may return either
  neighbour). The two forms do not coincide: for the same nonnegative \<open>ra\<close> the value
  from 100 m on is at least the value below 100 m, and it is strictly greater as soon
  as \<open>2e-5 altitude ra\<close> is at least 0.2.
\<close>

theorem R_so_by_altitude:
  "(R_a st e = Inr ra \<and> altitude st < 100 \<longrightarrow>
      (\<exists>k::int. R_so st e = Inr (of_int k / 10)
         \<and> \<bar>of_int k / 10 - 0.75 * ra\<bar> \<le> 1 / 20 + 1 / 10 ^ 9))
   \<and> (R_a st e = Inr ra \<and> 100 \<le> altitude st \<longrightarrow>
      (\<exists>k::int. R_so st e = Inr (of_int k / 10)
         \<and> \<bar>of_int k / 10 - (0.75 + 2 * (1 / 10 ^ 5) * of_int (altitude st)) * ra\<bar>
             \<le> 1 / 20 + 1 / 10 ^ 9))
   \<and> (R_a st e = Inr ra \<and> altitude st < 100
        \<and> R_a st' e' = Inr ra \<and> 100 \<le> altitude st' \<and> 0 \<le> ra \<longrightarrow>
      (\<exists>lo hi. R_so st e = Inr lo \<and> R_so st' e' = Inr hi \<and> lo \<le> hi
         \<and> (1 / 5 \<le> 2 * (1 / 10 ^ 5) * of_int (altitude st') * ra \<longrightarrow> lo < hi)))"
proof (intro conjI impI)
  assume "R_a st e = Inr ra \<and> altitude st < 100"
  then have "R_so st e = Inr (py_round (0.75 * ra) 1)" by (simp add: R_so_def)
  with py_round_tenth [of "0.75 * ra"]
  show "\<exists>k::int. R_so st e = Inr (of_int k / 10)
         \<and> \<bar>of_int k / 10 - 0.75 * ra\<bar> \<le> 1 / 20 + 1 / 10 ^ 9"
    by auto
next
  let ?c = "2 * (1 / 10 ^ 5) * real_of_int (altitude st)"
  assume "R_a st e = Inr ra \<and> 100 \<le> altitude st"
  then have "R_so st e = Inr (py_round ((0.75 + ?c) * ra) 1)" by (simp add: R_so_def)
  with py_round_tenth [of "(0.75 + ?c) * ra"]
  show "\<exists>k::int. R_so st e = Inr (of_int k / 10)
         \<and> \<bar>of_int k / 10 - (0.75 + ?c) * ra\<bar> \<le> 1 / 20 + 1 / 10 ^ 9"
    by auto
next
  let ?c = "2 * (1 / 10 ^ 5) * real_of_int (altitude st')"
  assume a: "R_a st e = Inr ra \<and> altitude st < 100
        \<and> R_a st' e' = Inr ra \<and> 100 \<le> altitude st' \<and> 0 \<le> ra"
  have lo: "R_so st e = Inr (py_round (0.75 * ra) 1)" using a by (simp add: R_so_def)
  have hi: "R_so st' e' = Inr (py_round ((0.75 + ?c) * ra) 1)" using a by (simp add: R_so_def)
  have c0: "0 \<le> ?c" using a by simp
  have "0 \<le> ?c * ra" using c0 a by (intro mult_nonneg_nonneg) simp_all
  then have "0.75 * ra \<le> (0.75 + ?c) * ra" by (simp add: algebra_simps)
  then have mono: "py_round (0.75 * ra) 1 \<le> py_round ((0.75 + ?c) * ra) 1"
    by (rule py_round_mono)
  have strict: "py_round (0.75 * ra) 1 < py_round ((0.75 + ?c) * ra) 1"
    if "1 / 5 \<le> ?c * ra"
  proof (rule py_round_strict)
    show "0.75 * ra + 1 / 10 ^ 1 < (0.75 + ?c) * ra"
      using that by (simp add: algebra_simps)
  qed
  show "\<exists>lo hi. R_so st e = Inr lo \<and> R_so st' e' = Inr hi \<and> lo \<le> hi
         \<and> (1 / 5 \<le> ?c * ra \<longrightarrow> lo < hi)"
    using lo hi mono strict by simp
qed

lemma R_a_day_equator:
  assumes "latitude_rad st = 0" "entry_class e = DayEntry"
  shows "\<exists>ra. R_a st e = Inr ra \<and> 25 \<le> ra \<and> ra \<le> 61"
  using R_a_equator [OF assms(1), of e] assms(2) by (simp add: R_a_def)

lemma TimeEntry_simps [simp]:
  "entry_class (TimeEntry cls t st) = cls"
  "radiation_s (TimeEntry cls t st) = None"
  "sunshine_hours (TimeEntry cls t st) = None"
  "day_number (TimeEntry cls (TInt n) st) = n"
  by (simp_all add: TimeEntry_def)

lemma store_day_simps [simp]:
  "latitude_rad (store_day st n e) = latitude_rad st"
  "altitude (store_day st n e) = altitude st"
  "climate (store_day st n e) = climate st"
  "anemometer_height (store_day st n e) = anemometer_height st"
  "ref_crop (store_day st n e) = ref_crop st"
  "days (store_day st n e) = (days st)(n \<mapsto> e)"
  by (simp_all add: store_day_def)

lemma equator_station_simps [simp]:
  "latitude_rad equator_station = 0"
  "altitude equator_station = 0"
  "climate equator_station = Some Climate"
  "anemometer_height equator_station = 2"
  "days equator_station = Map.empty"
  "longitude equator_station = 0"
  "timezone_longitude equator_station = 345"
  by (simp_all add: equator_station_eq)

lemma highland_station_simps [simp]:
  "latitude_rad highland_station = 0"
  "altitude highland_station = 5000"
  "climate highland_station = Some Climate"
  by (simp_all add: highland_station_eq)

lemma day_entry_plain:
  assumes "1 \<le> n" "n \<le> 366" "\<not> truthy rs" "\<not> truthy sh"
  shows "day_entry fl st (ArgInt n) tmin tmax tmean ws hm rs sh =
           (Inr ((TimeEntry DayEntry (TInt n) st)
                   \<lparr>temp_min := tmin, temp_max := tmax, temp_mean := tmean,
                    humidity_mean := hm, wind_speed := ws\<rparr>),
            store_day st n ((TimeEntry DayEntry (TInt n) st)
                   \<lparr>temp_min := tmin, temp_max := tmax, temp_mean := tmean,
                    humidity_mean := hm, wind_speed := ws\<rparr>))"
  using assms by (simp add: day_entry_def day_number_of_def day_set_radiation_s_def
        day_set_sunshine_hours_def Let_def)

theorem R_so_by_altitude_witness:
  "(\<exists>k::int. R_so (snd calm_day) (projr (fst calm_day)) = Inr (of_int k / 10)
       \<and> \<bar>of_int k / 10 - 0.75 * projr (R_a (snd calm_day) (projr (fst calm_day)))\<bar>
           \<le> 1 / 20 + 1 / 10 ^ 9)
   \<and> (\<exists>k::int. R_so (snd highland_day) (projr (fst highland_day)) = Inr (of_int k / 10)
       \<and> \<bar>of_int k / 10 - (0.75 + 2 * (1 / 10 ^ 5) * 5000)
              * projr (R_a (snd highland_day) (projr (fst highland_day)))\<bar>
           \<le> 1 / 20 + 1 / 10 ^ 9)
   \<and> R_a (snd highland_day) (projr (fst highland_day))
       = R_a (snd calm_day) (projr (fst calm_day))
   \<and> \<not> isl (R_so (snd calm_day) (projr (fst calm_day)))
   \<and> \<not> isl (R_so (snd highland_day) (projr (fst highland_day)))
   \<and> projr (R_so (snd calm_day) (projr (fst calm_day)))
       < projr (R_so (snd highland_day) (projr (fst highland_day)))"
proof -
  let ?e = "projr (fst calm_day)" and ?st = "snd calm_day"
  let ?h = "projr (fst highland_day)" and ?sh = "snd highland_day"
  have c: "latitude_rad ?st = 0" "entry_class ?e = DayEntry" "altitude ?st = 0"
    by (simp_all add: calm_day_def day_entry_plain)
  have h: "latitude_rad ?sh = 0" "entry_class ?h = DayEntry" "altitude ?sh = 5000"
    by (simp_all add: highland_day_def day_entry_plain)
  from R_a_day_equator [OF c(1,2)] obtain ra
    where ra: "R_a ?st ?e = Inr ra" "25 \<le> ra" by blast
  have same: "R_a ?sh ?h = R_a ?st ?e"
    by (simp add: calm_day_def highland_day_def day_entry_plain R_a_def TimeEntry_R_a_def
          sunset_hour_angle_def solar_declination_def relative_sun_distance_def)
  with ra have rb: "R_a ?sh ?h = Inr ra" by simp
  show ?thesis
    using R_so_by_altitude [of ?st ?e ra ?sh ?h]
      R_so_by_altitude [of ?sh ?h ra ?sh ?h] ra rb c h same
    by auto
qed

text \<open>
  The claim as stated fails at 5000 m on the equator: \<^verbatim>\<open>R_so()\<close> exceeds \<open>0.75 R_a()\<close>,
  rounded or not.
\<close>

theorem R_so_counterexample:
  "fst highland_day = Inr (projr (fst highland_day))
   \<and> \<not> isl (R_a (snd highland_day) (projr (fst highland_day)))
   \<and> \<not> isl (R_so (snd highland_day) (projr (fst highland_day)))
   \<and> 0.75 * projr (R_a (snd highland_day) (projr (fst highland_day)))
       < projr (R_so (snd highland_day) (projr (fst highland_day)))
   \<and> py_round (0.75 * projr (R_a (snd highland_day) (projr (fst highland_day)))) 1
       < projr (R_so (snd highland_day) (projr (fst highland_day)))"
proof -
  let ?h = "projr (fst highland_day)" and ?sh = "snd highland_day"
  have h: "latitude_rad ?sh = 0" "entry_class ?h = DayEntry" "altitude ?sh = 5000"
    "fst highland_day = Inr ?h"
    by (simp_all add: highland_day_def day_entry_plain)
  from R_a_day_equator [OF h(1,2)] obtain rb where rb: "R_a ?sh ?h = Inr rb" "25 \<le> rb"
    by blast
  have so: "R_so ?sh ?h = Inr (py_round (0.85 * rb) 1)"
    using rb h by (simp add: R_so_def)
  have "0.75 * rb + 1 / 10 ^ 1 < 0.85 * rb" using rb(2) by simp
  from py_round_strict [OF this] have lt: "py_round (0.75 * rb) 1 < py_round (0.85 * rb) 1" .
  have "0.85 * rb - 1 / (2 * 10 ^ 1) \<le> py_round (0.85 * rb) 1" by (rule py_round_lower)
  then have "0.75 * rb < py_round (0.85 * rb) 1" using rb(2) by simp
  with lt so rb h(4) show ?thesis by simp
qed

section \<open>Daily solar radiation\<close>

lemma geometry_sunshine_hours [simp]:
  "sunset_hour_angle st (e\<lparr>sunshine_hours := x\<rparr>) = sunset_hour_angle st e"
  "daylight_hours st (e\<lparr>sunshine_hours := x\<rparr>) = daylight_hours st e"
  "R_a st (e\<lparr>sunshine_hours := x\<rparr>) = R_a st e"
  "R_so st (e\<lparr>sunshine_hours := x\<rparr>) = R_so st e"
  by (simp_all add: sunset_hour_angle_def daylight_hours_def R_a_def TimeEntry_R_a_def
        HourEntry_R_a_def solar_time_angle_def R_so_def Let_def
        relative_sun_distance_def solar_declination_def
        cong: if_cong timeval.case_cong entry_class.case_cong)

lemma R_so_day_equator:
  assumes "latitude_rad st = 0" "entry_class e = DayEntry" "altitude st < 100"
  shows "\<exists>ra rso. R_a st e = Inr ra \<and> 25 \<le> ra \<and> ra \<le> 61
      \<and> R_so st e = Inr rso \<and> rso = py_round (0.75 * ra) 1 \<and> 18.7 \<le> rso \<and> rso \<le> 45.8"
proof -
  from R_a_day_equator [OF assms(1,2)] obtain ra
    where ra: "R_a st e = Inr ra" "25 \<le> ra" "ra \<le> 61" by blast
  have "of_int 187 / 10 ^ 1 \<le> 0.75 * ra" using ra(2) by simp
  from py_round_ge [OF this] have lo: "18.7 \<le> py_round (0.75 * ra) 1" by simp
  have "0.75 * ra \<le> of_int 458 / 10 ^ 1" using ra(3) by simp
  from py_round_le [OF this] have hi: "py_round (0.75 * ra) 1 \<le> 45.8" by simp
  show ?thesis using ra lo hi assms(3) by (simp add: R_so_def)
qed

lemma day_entry_radiation_accepted:
  assumes "1 \<le> n" "n \<le> 366" "r \<noteq> 0" "\<not> truthy sh" "CHECK_RADIATION_RANGE fl"
    and "R_so st ((TimeEntry DayEntry (TInt n) st)
                   \<lparr>temp_min := tmin, temp_max := tmax, temp_mean := tmean,
                    humidity_mean := hm, wind_speed := ws\<rparr>) = Inr rso" "r \<le> rso"
  shows "day_entry fl st (ArgInt n) tmin tmax tmean ws hm (Some r) sh =
           (Inr ((TimeEntry DayEntry (TInt n) st)
                   \<lparr>temp_min := tmin, temp_max := tmax, temp_mean := tmean,
                    humidity_mean := hm, wind_speed := ws, radiation_s := Some r\<rparr>),
            store_day st n ((TimeEntry DayEntry (TInt n) st)
                   \<lparr>temp_min := tmin, temp_max := tmax, temp_mean := tmean,
                    humidity_mean := hm, wind_speed := ws, radiation_s := Some r\<rparr>))"
  using assms by (simp add: day_entry_def day_number_of_def day_set_radiation_s_def
        day_set_sunshine_hours_def Let_def)

lemma day_entry_radiation_rejected:
  assumes "1 \<le> n" "n \<le> 366" "r \<noteq> 0" "CHECK_RADIATION_RANGE fl"
    and "R_so st ((TimeEntry DayEntry (TInt n) st)
                   \<lparr>temp_min := tmin, temp_max := tmax, temp_mean := tmean,
                    humidity_mean := hm, wind_speed := ws\<rparr>) = Inr rso" "rso < r"
  shows "day_entry fl st (ArgInt n) tmin tmax tmean ws hm (Some r) sh =
           (Inl (ValueError ''Raditaion out of range''),
            store_day st n ((TimeEntry DayEntry (TInt n) st)
                   \<lparr>temp_min := tmin, temp_max := tmax, temp_mean := tmean,
                    humidity_mean := hm, wind_speed := ws\<rparr>))"
  using assms by (simp add: day_entry_def day_number_of_def day_set_radiation_s_def
        day_set_sunshine_hours_def Let_def)

text \<open>
  C8, as the code has it. When \<^verbatim>\<open>day_entry\<close> succeeds with a radiation that is not zero,
  the entry holds that radiation and \<^verbatim>\<open>solar_radiation()\<close>, called on the station as the
  factory left it, returns exactly that value.
\<close>

theorem solar_radiation_round_trip:
  assumes "r \<noteq> 0"
    and "fst (day_entry fl st a tmin tmax tmean ws hm (Some r) sh) = Inr e"
  shows "radiation_s e = Some r
       \<and> solar_radiation fl (snd (day_entry fl st a tmin tmax tmean ws hm (Some r) sh)) e
           = Inr r"
  using assms
  by (auto simp: day_entry_def day_set_radiation_s_def day_set_sunshine_hours_def Let_def
        solar_radiation_def DayEntry_solar_radiation_def bind_err_def
        split: sum.splits if_splits)

lemma equator_entry_R_so:
  "\<exists>ra rso. R_a equator_station ((TimeEntry DayEntry (TInt 1) equator_station)
                   \<lparr>temp_min := tmin, temp_max := tmax, temp_mean := tmean,
                    humidity_mean := hm, wind_speed := ws\<rparr>) = Inr ra
      \<and> 25 \<le> ra \<and> ra \<le> 61
      \<and> R_so equator_station ((TimeEntry DayEntry (TInt 1) equator_station)
                   \<lparr>temp_min := tmin, temp_max := tmax, temp_mean := tmean,
                    humidity_mean := hm, wind_speed := ws\<rparr>) = Inr rso
      \<and> rso = py_round (0.75 * ra) 1 \<and> 18.7 \<le> rso \<and> rso \<le> 45.8"
  by (rule R_so_day_equator) simp_all

lemma sunny_day_eq:
  "sunny_day = (Inr ((TimeEntry DayEntry (TInt 1) equator_station)
                   \<lparr>temp_min := None, temp_max := None, temp_mean := None,
                    humidity_mean := None, wind_speed := None, radiation_s := Some 10\<rparr>),
            store_day equator_station 1 ((TimeEntry DayEntry (TInt 1) equator_station)
                   \<lparr>temp_min := None, temp_max := None, temp_mean := None,
                    humidity_mean := None, wind_speed := None, radiation_s := Some 10\<rparr>))"
proof -
  from equator_entry_R_so [of None None None None None] obtain rso
    where "R_so equator_station ((TimeEntry DayEntry (TInt 1) equator_station)
                   \<lparr>temp_min := None, temp_max := None, temp_mean := None,
                    humidity_mean := None, wind_speed := None\<rparr>) = Inr rso" "10 \<le> rso"
    by auto
  then show ?thesis unfolding sunny_day_def
    by (intro day_entry_radiation_accepted) (simp_all add: default_flags_def)
qed

lemma glaring_day_eq:
  "glaring_day = (Inl (ValueError ''Raditaion out of range''),
            store_day equator_station 1 ((TimeEntry DayEntry (TInt 1) equator_station)
                   \<lparr>temp_min := None, temp_max := None, temp_mean := None,
                    humidity_mean := None, wind_speed := None\<rparr>))"
proof -
  from equator_entry_R_so [of None None None None None] obtain rso
    where "R_so equator_station ((TimeEntry DayEntry (TInt 1) equator_station)
                   \<lparr>temp_min := None, temp_max := None, temp_mean := None,
                    humidity_mean := None, wind_speed := None\<rparr>) = Inr rso" "rso < 1000"
    by auto
  then show ?thesis unfolding glaring_day_def
    by (intro day_entry_radiation_rejected) (simp_all add: default_flags_def)
qed

theorem solar_radiation_round_trip_witness:
  "radiation_s (projr (fst sunny_day)) = Some 10
   \<and> solar_radiation default_flags (snd sunny_day) (projr (fst sunny_day)) = Inr 10"
proof -
  have "fst sunny_day = Inr (projr (fst sunny_day))" by (simp add: sunny_day_eq)
  then show ?thesis
    using solar_radiation_round_trip [of 10 default_flags equator_station "ArgInt 1"
        None None None None None None "projr (fst sunny_day)"]
    by (simp add: sunny_day_def)
qed

lemma angstrom_full_sun_equator:
  assumes "latitude_rad st = 0" "entry_class e = DayEntry" "altitude st < 100"
    "\<not> truthy (radiation_s e)" "sunshine_hours e = None" "climate st = Some c"
    "\<not> island_location c" "\<not> (truthy (temp_min e) \<and> truthy (temp_max e))"
  shows "solar_radiation fl st e = R_so st e"
proof -
  from R_so_day_equator [OF assms(1-3)] obtain ra rso
    where ra: "R_a st e = Inr ra" "R_so st e = Inr rso" "rso = py_round (0.75 * ra) 1"
    by blast
  have dl: "daylight_hours st e = Inr 12" by (rule daylight_hours_equator [OF assms(1)])
  show ?thesis using assms ra dl
    by (auto simp: solar_radiation_def DayEntry_solar_radiation_def
          solar_radiation_from_hours_def py_div_def Let_def)
qed

text \<open>
  The claim as stated fails for a radiation of 0, which is below the positive clear-sky
  ceiling of the day: the entry is created, and \<^verbatim>\<open>solar_radiation()\<close> returns a positive
  estimate.
\<close>

theorem solar_radiation_round_trip_counterexample:
  "fst still_day = Inr (projr (fst still_day))
   \<and> \<not> isl (R_so (snd still_day) (projr (fst still_day)))
   \<and> 0 < projr (R_so (snd still_day) (projr (fst still_day)))
   \<and> \<not> isl (solar_radiation default_flags (snd still_day) (projr (fst still_day)))
   \<and> 0 < projr (solar_radiation default_flags (snd still_day) (projr (fst still_day)))"
proof -
  let ?e = "projr (fst still_day)" and ?st = "snd still_day"
  have e: "fst still_day = Inr ?e" "latitude_rad ?st = 0" "entry_class ?e = DayEntry"
    "altitude ?st < 100" "\<not> truthy (radiation_s ?e)" "sunshine_hours ?e = None"
    "climate ?st = Some Climate" "\<not> island_location Climate"
    "\<not> (truthy (temp_min ?e) \<and> truthy (temp_max ?e))"
    by (simp_all add: still_day_def day_entry_plain Climate_def)
  from R_so_day_equator [OF e(2-4)] obtain rso
    where rso: "R_so ?st ?e = Inr rso" "18.7 \<le> rso" by blast
  have "solar_radiation default_flags ?st ?e = R_so ?st ?e"
    by (rule angstrom_full_sun_equator [OF e(2-9)])
  with rso e(1) show ?thesis by simp
qed

section \<open>Zero observations\<close>



section \<open>The registry after a failed validation\<close>

lemma day_number_of_error:
  "day_number_of a = Inl err \<Longrightarrow>
     err \<noteq> ValueError ''Raditaion out of range''
     \<and> err \<noteq> ValueError ''Sunshine hours out of range''"
  by (auto simp: day_number_of_def split: time_arg.splits option.splits)

lemma day_R_so_error:
  "entry_class e = DayEntry \<Longrightarrow> R_so st e = Inl err \<Longrightarrow>
     err = ValueError ''math domain error''"
  by (auto simp: R_so_def R_a_def TimeEntry_R_a_def sunset_hour_angle_def math_acos_def
        bind_err_def split: if_splits sum.splits)

lemma daylight_hours_error:
  "daylight_hours st e = Inl err \<Longrightarrow> err = ValueError ''math domain error''"
  by (auto simp: daylight_hours_def sunset_hour_angle_def math_acos_def
        bind_err_def split: if_splits sum.splits)

lemma day_set_radiation_s_Inl:
  assumes "day_set_radiation_s fl st day rs = Inl err" "entry_class day = DayEntry"
  shows "truthy rs \<and> err \<noteq> ValueError ''Sunshine hours out of range''"
proof -
  have t: "truthy rs" using assms(1) by (auto simp: day_set_radiation_s_def split: if_splits)
  have "err \<noteq> ValueError ''Sunshine hours out of range''"
  proof (cases "R_so st day")
    case (Inl x)
    from day_R_so_error [OF assms(2) Inl] Inl assms(1) t show ?thesis
      by (auto simp: day_set_radiation_s_def split: if_splits)
  next
    case (Inr rso)
    with assms(1) t show ?thesis
      by (auto simp: day_set_radiation_s_def split: if_splits)
  qed
  with t show ?thesis by simp
qed

lemma day_set_radiation_s_value:
  "day_set_radiation_s fl st day rs = Inr d2 \<Longrightarrow>
     d2 = (if truthy rs then day\<lparr>radiation_s := rs\<rparr> else day)"
  by (auto simp: day_set_radiation_s_def bind_err_def split: if_splits sum.splits)

lemma day_set_sunshine_hours_Inl:
  assumes "day_set_sunshine_hours fl st day sh = Inl err"
  shows "truthy sh \<and> err \<noteq> ValueError ''Raditaion out of range''"
proof -
  have t: "truthy sh" using assms by (auto simp: day_set_sunshine_hours_def split: if_splits)
  have "err \<noteq> ValueError ''Raditaion out of range''"
  proof (cases "daylight_hours st day")
    case (Inl x)
    from daylight_hours_error [OF Inl] Inl assms t show ?thesis
      by (auto simp: day_set_sunshine_hours_def split: if_splits)
  next
    case (Inr N)
    with assms t show ?thesis
      by (auto simp: day_set_sunshine_hours_def split: if_splits)
  qed
  with t show ?thesis by simp
qed

lemma overlong_day_eq:
  "overlong_day = (Inl (ValueError ''Sunshine hours out of range''),
            store_day equator_station 1 ((TimeEntry DayEntry (TInt 1) equator_station)
                   \<lparr>temp_min := None, temp_max := None, temp_mean := None,
                    humidity_mean := None, wind_speed := None, radiation_s := Some 10\<rparr>))"
proof -
  from equator_entry_R_so [of None None None None None] obtain rso
    where rso: "R_so equator_station ((TimeEntry DayEntry (TInt 1) equator_station)
                   \<lparr>temp_min := None, temp_max := None, temp_mean := None,
                    humidity_mean := None, wind_speed := None\<rparr>) = Inr rso" "10 \<le> rso"
    by auto
  have dl: "daylight_hours st e = Inr 12" if "latitude_rad st = 0" for st e
    using that by (rule daylight_hours_equator)
  show ?thesis unfolding overlong_day_def
    using rso
    by (simp add: day_entry_def day_number_of_def day_set_radiation_s_def
        day_set_sunshine_hours_def Let_def default_flags_def dl)
qed

text \<open>
  C2, as the code has it. When \<^verbatim>\<open>day_entry\<close> fails because the radiation or the sunshine
  hours are out of range, the first argument has a day number between 1 and 366, and
  the station is left as it was but for its registry, which holds under that day number
  the new entry: the fresh entry of that day with the temperatures, the humidity and
  the wind speed passed. When the radiation was rejected the entry holds no radiation;
  when the sunshine hours were rejected it holds the radiation passed, which was
  accepted before, if that is not zero. In neither case does it hold sunshine hours.
\<close>

theorem failed_day_entry_is_stored:
  assumes "fst (day_entry fl st a tmin tmax tmean ws hm rs sh)
             = Inl (ValueError ''Raditaion out of range'')
         \<or> fst (day_entry fl st a tmin tmax tmean ws hm rs sh)
             = Inl (ValueError ''Sunshine hours out of range'')"
  shows "\<exists>n. day_number_of a = Inr n \<and> 1 \<le> n \<and> n \<le> 366
           \<and> (fst (day_entry fl st a tmin tmax tmean ws hm rs sh)
                 = Inl (ValueError ''Raditaion out of range'') \<longrightarrow>
               truthy rs
               \<and> snd (day_entry fl st a tmin tmax tmean ws hm rs sh)
                   = st\<lparr>days := (days st)(n \<mapsto> (TimeEntry DayEntry (TInt n) st)
                         \<lparr>temp_min := tmin, temp_max := tmax, temp_mean := tmean,
                          humidity_mean := hm, wind_speed := ws\<rparr>)\<rparr>)
           \<and> (fst (day_entry fl st a tmin tmax tmean ws hm rs sh)
                 = Inl (ValueError ''Sunshine hours out of range'') \<longrightarrow>
               truthy sh
               \<and> snd (day_entry fl st a tmin tmax tmean ws hm rs sh)
                   = st\<lparr>days := (days st)(n \<mapsto> (TimeEntry DayEntry (TInt n) st)
                         \<lparr>temp_min := tmin, temp_max := tmax, temp_mean := tmean,
                          humidity_mean := hm, wind_speed := ws,
                          radiation_s := (if truthy rs then rs else None)\<rparr>)\<rparr>)"
proof (cases "day_number_of a")
  case (Inl err)
  then have "fst (day_entry fl st a tmin tmax tmean ws hm rs sh) = Inl err"
    by (simp add: day_entry_def)
  with day_number_of_error [OF Inl] assms show ?thesis by auto
next
  case (Inr n)
  show ?thesis
  proof (cases "1 \<le> n \<and> n \<le> 366")
    case False
    with Inr have "fst (day_entry fl st a tmin tmax tmean ws hm rs sh)
        = Inl (Exception '''day_number' must be between in the range 1-366'')"
      by (simp add: day_entry_def)
    with assms show ?thesis by simp
  next
    case True
    define day where "day = (TimeEntry DayEntry (TInt n) st)
                         \<lparr>temp_min := tmin, temp_max := tmax, temp_mean := tmean,
                          humidity_mean := hm, wind_speed := ws\<rparr>"
    have cls: "entry_class day = DayEntry" by (simp add: day_def)
    have rad0: "radiation_s day = None" by (simp add: day_def)
    show ?thesis
    proof (cases "day_set_radiation_s fl (store_day st n day) day rs")
      case (Inl err)
      with Inr True
      have r: "day_entry fl st a tmin tmax tmean ws hm rs sh = (Inl err, store_day st n day)"
        by (simp add: day_entry_def Let_def flip: day_def)
      from day_set_radiation_s_Inl [OF Inl cls]
      have t: "truthy rs" "err \<noteq> ValueError ''Sunshine hours out of range''" by simp_all
      show ?thesis
        using Inr True t unfolding r by (simp add: store_day_def day_def)
    next
      case d2: (Inr day2)
      from day_set_radiation_s_value [OF d2]
      have day2: "day2 = day\<lparr>radiation_s := (if truthy rs then rs else None)\<rparr>"
        using rad0 by auto
      show ?thesis
      proof (cases "day_set_sunshine_hours fl (store_day st n day2) day2 sh")
        case (Inl err)
        with Inr True d2
        have r: "day_entry fl st a tmin tmax tmean ws hm rs sh
                   = (Inl err, store_day st n day2)"
          by (simp add: day_entry_def Let_def flip: day_def)
        from day_set_sunshine_hours_Inl [OF Inl]
        have t: "truthy sh" "err \<noteq> ValueError ''Raditaion out of range''" by simp_all
        show ?thesis
          using Inr True t unfolding r by (simp add: store_day_def day2 day_def)
      next
        case d3: (Inr day3)
        with Inr True d2
        have "fst (day_entry fl st a tmin tmax tmean ws hm rs sh) = Inr day3"
          by (simp add: day_entry_def Let_def flip: day_def)
        with assms show ?thesis by simp
      qed
    qed
  qed
qed

theorem failed_day_entry_is_stored_witness:
  "snd glaring_day = equator_station\<lparr>days := (days equator_station)(1 \<mapsto>
        (TimeEntry DayEntry (TInt 1) equator_station)
          \<lparr>temp_min := None, temp_max := None, temp_mean := None,
           humidity_mean := None, wind_speed := None\<rparr>)\<rparr>
   \<and> snd overlong_day = equator_station\<lparr>days := (days equator_station)(1 \<mapsto>
        (TimeEntry DayEntry (TInt 1) equator_station)
          \<lparr>temp_min := None, temp_max := None, temp_mean := None,
           humidity_mean := None, wind_speed := None, radiation_s := Some 10\<rparr>)\<rparr>"
proof -
  have g: "fst glaring_day = Inl (ValueError ''Raditaion out of range'')"
    by (simp add: glaring_day_eq)
  have o: "fst overlong_day = Inl (ValueError ''Sunshine hours out of range'')"
    by (simp add: overlong_day_eq)
  have n: "day_number_of (ArgInt 1) = Inr n \<longleftrightarrow> n = 1" for n
    by (auto simp: day_number_of_def)
  show ?thesis
    using failed_day_entry_is_stored [of default_flags equator_station "ArgInt 1"
        None None None None None "Some 1000" None]
      failed_day_entry_is_stored [of default_flags equator_station "ArgInt 1"
        None None None None None "Some 10" "Some 20"] g o
    unfolding glaring_day_def [symmetric] overlong_day_def [symmetric]
    by (auto simp: n)
qed

text \<open>
  The claim as stated fails for \<^verbatim>\<open>day_entry(1, radiation_s=1000)\<close> at the equator station:
  the call raises, and the registry, empty before, holds an entry for day 1.
\<close>

theorem failed_day_entry_counterexample:
  "fst glaring_day = Inl (ValueError ''Raditaion out of range'')
   \<and> days equator_station 1 = None
   \<and> days (snd glaring_day) 1 \<noteq> None
   \<and> snd glaring_day \<noteq> equator_station"
proof -
  have "days (snd glaring_day) 1 \<noteq> None" by (simp add: glaring_day_eq)
  moreover from this have "snd glaring_day \<noteq> equator_station" by auto
  ultimately show ?thesis by (simp add: glaring_day_eq)
qed

section \<open>The Hargreaves-Samani estimate\<close>

text \<open>
  C5, as the code has it for interior and coastal climates. For a day entry without a
  radiation that counts and without sunshine hours, at a station whose climate was made
  interior or coastal, with minimum and maximum temperature both logged and not zero and
  the minimum at most the maximum, \<^verbatim>\<open>solar_radiation()\<close> is
  \<open>k_rs sqrt (tmax - tmin) R_a\<close> rounded to one decimal, with the climate's \<open>k_rs\<close>: 0.19
  for coastal and 0.16 for interior. Rounded to one decimal: a multiple of 0.1 within
  0.05 of the product, up to the allowance for the binary arithmetic (at a decimal tie
  of the product the code may return either neighbour).
\<close>

theorem hargreaves_samani_radiation:
  assumes "entry_class e = DayEntry" "\<not> truthy (radiation_s e)" "sunshine_hours e = None"
    and "climate st = Some c" "c = interior c0 \<or> c = coastal c0"
    and "temp_min e = Some tmin" "tmin \<noteq> 0" "temp_max e = Some tmax" "tmax \<noteq> 0"
    and "tmin \<le> tmax" "R_a st e = Inr ra"
  shows "(\<exists>k::int. solar_radiation fl st e = Inr (of_int k / 10)
            \<and> \<bar>of_int k / 10 - k_rs c * sqrt (tmax - tmin) * ra\<bar> \<le> 1 / 20 + 1 / 10 ^ 9)
       \<and> k_rs c = (if coastal_location c then 0.19 else 0.16)"
proof -
  have k: "k_rs c = (if coastal_location c then 0.19 else 0.16)"
    using assms(5) by (auto simp: interior_def coastal_def)
  have "solar_radiation fl st e = Inr (py_round (k_rs c * sqrt (tmax - tmin) * ra) 1)"
    using assms
    by (auto simp: solar_radiation_def DayEntry_solar_radiation_def math_sqrt_def
          interior_def coastal_def Let_def)
  with py_round_tenth [of "k_rs c * sqrt (tmax - tmin) * ra"] k show ?thesis by auto
qed

lemma coastal_station_simps [simp]:
  "latitude_rad coastal_station = 0"
  "altitude coastal_station = 0"
  "climate coastal_station = Some (coastal Climate)"
  by (simp_all add: coastal_station_def)

theorem hargreaves_samani_radiation_witness:
  "(\<exists>k::int. solar_radiation default_flags (snd warm_day) (projr (fst warm_day))
                = Inr (of_int k / 10)
       \<and> \<bar>of_int k / 10 - 0.16 * sqrt (20 - 10)
              * projr (R_a (snd warm_day) (projr (fst warm_day)))\<bar> \<le> 1 / 20 + 1 / 10 ^ 9)
   \<and> (\<exists>k::int. solar_radiation default_flags (snd coastal_day) (projr (fst coastal_day))
                = Inr (of_int k / 10)
       \<and> \<bar>of_int k / 10 - 0.19 * sqrt (20 - 10)
              * projr (R_a (snd coastal_day) (projr (fst coastal_day)))\<bar> \<le> 1 / 20 + 1 / 10 ^ 9)"
proof -
  let ?e = "projr (fst warm_day)" and ?st = "snd warm_day"
  let ?f = "projr (fst coastal_day)" and ?su = "snd coastal_day"
  have w: "entry_class ?e = DayEntry" "\<not> truthy (radiation_s ?e)" "sunshine_hours ?e = None"
    "climate ?st = Some Climate" "Climate = interior Climate \<or> Climate = coastal Climate"
    "temp_min ?e = Some 10" "(10::real) \<noteq> 0" "temp_max ?e = Some 20" "(20::real) \<noteq> 0"
    "(10::real) \<le> 20" "latitude_rad ?st = 0"
    by (simp_all add: warm_day_def day_entry_plain interior_def Climate_def)
  have c: "entry_class ?f = DayEntry" "\<not> truthy (radiation_s ?f)" "sunshine_hours ?f = None"
    "climate ?su = Some (coastal Climate)"
    "coastal Climate = interior Climate \<or> coastal Climate = coastal Climate"
    "temp_min ?f = Some 10" "temp_max ?f = Some 20" "latitude_rad ?su = 0"
    by (simp_all add: coastal_day_def day_entry_plain)
  from R_a_day_equator [OF w(11) w(1)] obtain ra where ra: "R_a ?st ?e = Inr ra" by blast
  from R_a_day_equator [OF c(8) c(1)] obtain rb where rb: "R_a ?su ?f = Inr rb" by blast
  show ?thesis
    using hargreaves_samani_radiation [OF w(1-10) ra, of default_flags]
      hargreaves_samani_radiation [OF c(1-6) w(7) c(7) w(9) w(10) rb, of default_flags]
      ra rb
    by (simp add: Climate_def coastal_def)
qed

text \<open>
  The claim as stated fails for a logged minimum temperature of 0: both extremes are
  known, but the method takes the minimum for missing and returns the full-sun Angstrom
  value, which is more than the Hargreaves-Samani value even after rounding.
\<close>

theorem hargreaves_samani_radiation_counterexample:
  "fst frost_day = Inr (projr (fst frost_day))
   \<and> temp_min (projr (fst frost_day)) = Some 0
   \<and> temp_max (projr (fst frost_day)) = Some 10
   \<and> radiation_s (projr (fst frost_day)) = None
   \<and> sunshine_hours (projr (fst frost_day)) = None
   \<and> climate (snd frost_day) = Some Climate
   \<and> \<not> isl (R_a (snd frost_day) (projr (fst frost_day)))
   \<and> \<not> isl (solar_radiation default_flags (snd frost_day) (projr (fst frost_day)))
   \<and> k_rs Climate * sqrt (10 - 0) * projr (R_a (snd frost_day) (projr (fst frost_day)))
        + 1 / 20
       < projr (solar_radiation default_flags (snd frost_day) (projr (fst frost_day)))"
proof -
  let ?e = "projr (fst frost_day)" and ?st = "snd frost_day"
  have e: "fst frost_day = Inr ?e" "latitude_rad ?st = 0" "entry_class ?e = DayEntry"
    "altitude ?st < 100" "\<not> truthy (radiation_s ?e)" "sunshine_hours ?e = None"
    "climate ?st = Some Climate" "\<not> island_location Climate"
    "\<not> (truthy (temp_min ?e) \<and> truthy (temp_max ?e))"
    "temp_min ?e = Some 0" "temp_max ?e = Some 10" "radiation_s ?e = None"
    by (simp_all add: frost_day_def day_entry_plain Climate_def)
  from R_so_day_equator [OF e(2-4)] obtain ra rso
    where r: "R_a ?st ?e = Inr ra" "25 \<le> ra" "R_so ?st ?e = Inr rso"
      "rso = py_round (0.75 * ra) 1" by blast
  have sr: "solar_radiation default_flags ?st ?e = Inr rso"
    using angstrom_full_sun_equator [OF e(2-9)] r(3) by simp
  define x where "x = 0.16 * sqrt (10 - 0) * ra"
  have s4: "sqrt (10 - 0) \<le> (4::real)" by (rule real_le_lsqrt) simp_all
  have "sqrt (10 - 0) * ra \<le> 4 * ra"
    using s4 r(2) by (intro mult_right_mono) simp_all
  then have "0.16 * (sqrt (10 - 0) * ra) \<le> 0.16 * (4 * ra)"
    by (rule mult_left_mono) simp
  then have a: "x \<le> (16 / 25) * ra" by (simp add: x_def mult.assoc)
  have "0.75 * ra - 1 / (2 * 10 ^ 1) \<le> rso" unfolding r(4) by (rule py_round_lower)
  then have b: "(3 / 4) * ra - 1 / 20 \<le> rso" by simp
  from a b r(2) have "x + 1 / 20 < rso" by linarith
  then have "0.16 * sqrt (10 - 0) * ra + 1 / 20 < rso" by (simp only: x_def)
  with e sr r(1) show ?thesis by (simp add: Climate_def)
qed

text \<open>
  An island climate at 100 metres or more is outside the theorem on interior and coastal
  climates: the method has no case for it and falls through to 0.16, whereas
  \<^verbatim>\<open>Climate.island()\<close> sets \<open>k_rs\<close> to 0.19. The result is the product with 0.16,
  rounded as above.
\<close>

lemma island_uses_interior_coefficient:
  assumes "entry_class e = DayEntry" "\<not> truthy (radiation_s e)" "sunshine_hours e = None"
    and "climate st = Some (island c0)" "100 \<le> altitude st"
    and "temp_min e = Some tmin" "tmin \<noteq> 0" "temp_max e = Some tmax" "tmax \<noteq> 0"
    and "tmin \<le> tmax" "R_a st e = Inr ra"
  shows "(\<exists>k::int. solar_radiation fl st e = Inr (of_int k / 10)
            \<and> \<bar>of_int k / 10 - 0.16 * sqrt (tmax - tmin) * ra\<bar> \<le> 1 / 20 + 1 / 10 ^ 9)
       \<and> k_rs (island c0) = 0.19"
proof -
  have "solar_radiation fl st e = Inr (py_round (0.16 * sqrt (tmax - tmin) * ra) 1)"
    using assms
    by (auto simp: solar_radiation_def DayEntry_solar_radiation_def math_sqrt_def
        island_def Let_def)
  with py_round_tenth [of "0.16 * sqrt (tmax - tmin) * ra"] show ?thesis
    by (auto simp: island_def)
qed

section \<open>The range check of hour_entry\<close>

lemma meridian_station_simps [simp]:
  "latitude_rad meridian_station = 0"
  "altitude meridian_station = 0"
  "longitude meridian_station = 345"
  "timezone_longitude meridian_station = 345"
  by (simp_all add: meridian_station_def Station_def)

lemma store_hour_simps [simp]:
  "latitude_rad (store_hour st n e) = latitude_rad st"
  "altitude (store_hour st n e) = altitude st"
  "longitude (store_hour st n e) = longitude st"
  "timezone_longitude (store_hour st n e) = timezone_longitude st"
  "climate (store_hour st n e) = climate st"
  "hours (store_hour st n e) = (hours st)(n \<mapsto> e)"
  by (simp_all add: store_hour_def)

lemma season_correction_bounds:
  fixes a c s :: real
  assumes "\<bar>a\<bar> \<le> 1" "\<bar>c\<bar> \<le> 1" "\<bar>s\<bar> \<le> 1"
  shows "\<bar>0.1645 * a - 0.1255 * c - 0.025 * s\<bar> \<le> 0.315"
proof -
  have "\<bar>(329 / 2000) * a - (251 / 2000) * c - (1 / 40) * s\<bar> \<le> 63 / 200"
    using assms by linarith
  then show ?thesis by simp
qed

lemma solar_time_angle_bounds:
  assumes "time e = TDatetime d"
  shows "\<exists>w sc. solar_time_angle st e = Inr w \<and> \<bar>sc\<bar> \<le> 0.315
    \<and> w = pi / 12 * ((of_int (dt_hour d) + 0.5
                       + 0.06667 * (timezone_longitude st - longitude st) + sc) - 12)"
proof -
  let ?b = "2 * pi * (of_int (day_number e) - 81) / 364"
  let ?sc = "0.1645 * sin (2 * ?b) - 0.1255 * cos ?b - 0.025 * sin ?b"
  have "\<bar>?sc\<bar> \<le> 0.315" by (rule season_correction_bounds) simp_all
  moreover have "solar_time_angle st e = Inr (pi / 12 * ((of_int (dt_hour d) + 0.5
                       + 0.06667 * (timezone_longitude st - longitude st) + ?sc) - 12))"
    using assms by (simp add: solar_time_angle_def Let_def)
  ultimately show ?thesis by blast
qed

lemma round_half_pi_bounds: "0.9995 \<le> py_round (pi / 2) 3" "py_round (pi / 2) 3 \<le> 2.0005"
proof -
  have "\<bar>py_round (pi / 2) 3 - pi / 2\<bar> \<le> 1 / 2000" by (rule round_half_pi)
  then have a: "pi / 2 - 1 / 2000 \<le> py_round (pi / 2) 3" "py_round (pi / 2) 3 \<le> pi / 2 + 1 / 2000"
    by linarith+
  from a(1) pi_ge_two show "0.9995 \<le> py_round (pi / 2) 3" by simp
  from a(2) pi_less_4 show "py_round (pi / 2) 3 \<le> 2.0005" by simp
qed

lemma night_R_a:
  assumes "latitude_rad st = 0" "time e = TDatetime d" "dt_hour d = 12"
    "timezone_longitude st - longitude st = 345"
  shows "HourEntry_R_a st e = Inr 0"
proof -
  from solar_time_angle_bounds [OF assms(2), of st] obtain w sc
    where w: "solar_time_angle st e = Inr w" "\<bar>sc\<bar> \<le> 0.315"
      "w = pi / 12 * ((of_int (dt_hour d) + 0.5
              + 0.06667 * (timezone_longitude st - longitude st) + sc) - 12)"
    by blast
  define x where "x = (of_int (dt_hour d) + 0.5
              + 0.06667 * (timezone_longitude st - longitude st) + sc) - 12"
  have "x = 0.5 + 0.06667 * 345 + sc" using assms by (simp add: x_def)
  with w(2) have x: "23 \<le> x" by simp
  have "2 / 12 * 23 \<le> pi / 12 * x"
    using pi_ge_two x by (intro mult_mono) simp_all
  then have "3 \<le> w" using w(3) by (simp add: x_def)
  with round_half_pi_bounds(2) have "py_round (pi / 2) 3 < w" by simp
  then show ?thesis
    using w(1) by (simp add: HourEntry_R_a_def sunset_at_equator [OF assms(1)])
qed

lemma sin_lower_cubic: assumes "0 \<le> (x::real)" shows "x - x ^ 3 / 6 \<le> sin x"
proof (cases "x = 0")
  case True then show ?thesis by simp
next
  case False
  with assms have "0 < x" by simp
  from Maclaurin_sin_expansion3 [of 3 x, OF _ this] obtain t
    where t: "sin x = (\<Sum>m<3. sin_coeff m * x ^ m) + sin (t + 1 / 2 * real 3 * pi) / fact 3 * x ^ 3"
    by auto
  have s: "(\<Sum>m<3. sin_coeff m * x ^ m) = x"
    by (simp add: sin_coeff_def eval_nat_numeral)
  have "- 1 \<le> sin (t + 1 / 2 * real 3 * pi)" by (rule sin_ge_minus_one)
  then have "- 1 / 6 * x ^ 3 \<le> sin (t + 1 / 2 * real 3 * pi) / 6 * x ^ 3"
    using \<open>0 < x\<close> by (intro mult_right_mono divide_right_mono) simp_all
  moreover have "fact 3 = (6::real)" by (simp add: eval_nat_numeral)
  ultimately show ?thesis using t s by simp
qed

lemma sin_pi_24_lower: "0.083 \<le> sin (pi / 24)"
proof -
  have "sin (1 / 12) \<le> sin (pi / 24)"
    using pi_ge_two pi_gt_zero by (intro sin_monotone_2pi_le) simp_all
  moreover have "(1 / 12) - (1 / 12) ^ 3 / 6 \<le> sin (1 / 12 :: real)"
    by (rule sin_lower_cubic) simp
  moreover have "(0.083::real) \<le> (1 / 12) - (1 / 12) ^ 3 / 6"
    by (simp add: power3_eq_cube)
  ultimately show ?thesis by linarith
qed

lemma noon_R_a:
  assumes "latitude_rad st = 0" "time e = TDatetime d" "dt_hour d = 12"
    "timezone_longitude st - longitude st = 0"
  shows "\<exists>ra. HourEntry_R_a st e = Inr ra \<and> 2 \<le> ra"
proof -
  from solar_time_angle_bounds [OF assms(2), of st] obtain w sc
    where w: "solar_time_angle st e = Inr w" "\<bar>sc\<bar> \<le> 0.315"
      "w = pi / 12 * ((of_int (dt_hour d) + 0.5
              + 0.06667 * (timezone_longitude st - longitude st) + sc) - 12)"
    by blast
  define x where "x = (of_int (dt_hour d) + 0.5
              + 0.06667 * (timezone_longitude st - longitude st) + sc) - 12"
  have "x = 0.5 + sc" using assms by (simp add: x_def)
  with w(2) have x: "0 \<le> x" "x \<le> 0.815" by simp_all
  have wx: "w = pi / 12 * x" using w(3) by (simp add: x_def)
  have w0: "0 \<le> w" unfolding wx using x(1) pi_gt_zero by simp
  have "pi / 12 * x \<le> 4 / 12 * 0.815"
    using pi_less_4 x pi_gt_zero by (intro mult_mono) simp_all
  then have w1: "w \<le> 0.272" unfolding wx by simp
  let ?ws = "py_round (pi / 2) 3"
  have inside: "\<not> (w < - ?ws \<or> w > ?ws)"
    using w0 w1 round_half_pi_bounds(1) by simp
  let ?d = "relative_sun_distance e" and ?c = "cos (solar_declination e)"
  let ?k = "12 * 60 / pi * 0.0820"
  define h where "h = pi / 24"
  have sd: "sin (w + pi / 24) - sin (w - pi / 24) = 2 * (cos w * sin (pi / 24))"
    by (simp add: sin_add sin_diff)
  have eq: "HourEntry_R_a st e = Inr (py_round (?k * ?d * (?c * (2 * (cos w * sin h)))) 3)"
    using w(1) inside assms(1)
    by (simp add: HourEntry_R_a_def sunset_at_equator [OF assms(1)] Let_def sd h_def)
  have "\<bar>w\<bar> \<le> 0.272" using w0 w1 by simp
  then have "w\<^sup>2 \<le> 0.272\<^sup>2"
    by (metis abs_le_square_iff abs_of_nonneg less_eq_real_def zero_less_divide_iff
        zero_less_numeral zero_less_power)
  then have "0.96 \<le> 1 - w\<^sup>2 / 2" by (simp add: power2_eq_square)
  with cos_lower_quadratic [of w] have cw: "0.96 \<le> cos w" by linarith
  have sh: "0.083 \<le> sin h" unfolding h_def by (rule sin_pi_24_lower)
  have dr: "0.967 \<le> ?d" using rsd_bounds [of e] by simp
  have c: "0.9 \<le> ?c" by (rule cos_decl_lower)
  have k: "14.76 \<le> ?k" using pi_less_4 pi_gt_zero by (simp add: field_simps)
  have a1: "0.96 * 0.083 \<le> cos w * sin h" by (rule mult_lower2 [OF _ cw _ sh]) simp_all
  then have a2: "2 * (0.96 * 0.083) \<le> 2 * (cos w * sin h)" by simp
  have a3: "0.9 * (2 * (0.96 * 0.083)) \<le> ?c * (2 * (cos w * sin h))"
    by (rule mult_lower2 [OF _ c _ a2]) simp_all
  have a4: "14.76 * 0.967 \<le> ?k * ?d" by (rule mult_lower2 [OF _ k _ dr]) simp_all
  have big: "(14.76 * 0.967) * (0.9 * (2 * (0.96 * 0.083))) \<le> ?k * ?d * (?c * (2 * (cos w * sin h)))"
    by (rule mult_lower2 [OF _ a4 _ a3]) simp_all
  have num: "of_int 2000 / 10 ^ 3 \<le> (14.76 * 0.967) * (0.9 * (2 * (0.96 * 0.083 :: real)))"
    by simp
  from py_round_ge [OF order_trans [OF num big]] eq show ?thesis by simp
qed

lemma hour_class_R_so:
  assumes "entry_class e = HourEntry" "altitude st < 100" "HourEntry_R_a st e = Inr ra"
  shows "R_so st e = Inr (py_round (0.75 * ra) 1)"
  using assms by (simp add: R_so_def R_a_def)

lemma hour_entry_at_unfold:
  "hour_entry fl st (ArgDatetime d) tmin tmax tmean ws hm rs =
     (let k = int_trunc (dt_timestamp d / 3600);
          hour = (TimeEntry HourEntry (TDatetime d) st)
                   \<lparr>temp_min := tmin, temp_max := tmax, temp_mean := tmean,
                    humidity_mean := hm, wind_speed := ws\<rparr>
      in
      case (if truthy rs then
              (if CHECK_RADIATION_RANGE fl then
                 bind_err (R_so (store_hour st k hour) hour) (\<lambda>rso.
                 if val rs - rso > 0.05 * rso then Inr (hour\<lparr>radiation_s := rs\<rparr>)
                 else Inl (ValueError ''Radiation out of range''))
               else Inr (hour\<lparr>radiation_s := rs\<rparr>))
            else Inr hour)
      of
        Inl err \<Rightarrow> (Inl err, store_hour st k hour)
      | Inr hour2 \<Rightarrow> (Inr hour2, store_hour st k hour2))"
  by (simp add: hour_entry_def hour_entry_at_def)

lemma new_year_noon_simps [simp]:
  "dt_hour new_year_noon = 12" "int_trunc (dt_timestamp new_year_noon / 3600) = 447084"
  by (simp_all add: new_year_noon_def int_trunc_def)

text \<open>
  The check in general: with the range check on and a radiation that is not zero,
  \<^verbatim>\<open>hour_entry\<close> returns the entry exactly when the radiation exceeds the clear-sky
  radiation by more than 5 percent of it, and raises ValueError otherwise.
\<close>

lemma hour_entry_accepts_iff:
  assumes "rs \<noteq> 0" "CHECK_RADIATION_RANGE fl"
    and "R_so st ((TimeEntry HourEntry (TDatetime d) st)
                   \<lparr>temp_min := tmin, temp_max := tmax, temp_mean := tmean,
                    humidity_mean := hm, wind_speed := ws\<rparr>) = Inr rso"
  shows "fst (hour_entry fl st (ArgDatetime d) tmin tmax tmean ws hm (Some rs))
           = (if rs - rso > 0.05 * rso
              then Inr ((TimeEntry HourEntry (TDatetime d) st)
                   \<lparr>temp_min := tmin, temp_max := tmax, temp_mean := tmean,
                    humidity_mean := hm, wind_speed := ws, radiation_s := Some rs\<rparr>)
              else Inl (ValueError ''Radiation out of range''))"
proof -
  have s: "R_so (store_hour st k x) y = R_so st y" for k x y
    by (simp add: sunset_hour_angle_def daylight_hours_def R_a_def TimeEntry_R_a_def
        HourEntry_R_a_def solar_time_angle_def R_so_def store_hour_def Let_def
        cong: if_cong timeval.case_cong entry_class.case_cong)
  show ?thesis using assms by (simp add: hour_entry_at_unfold Let_def s)
qed

text \<open>
  C1 at two hour entries with a radiation of 1. At noon the clear-sky radiation is at
  least 1.5, so 1 is inside the band, and \<^verbatim>\<open>HourEntry.solar_radiation\<close> accepts it on the
  stored entry; \<^verbatim>\<open>hour_entry\<close> raises ValueError and stores the entry without it. At
  night the clear-sky radiation is 0, so 1 is outside the band; \<^verbatim>\<open>hour_entry\<close> stores
  it and returns the entry, on which \<^verbatim>\<open>solar_radiation()\<close> then raises.
\<close>

theorem hour_entry_range_check_inverted:
  "fst noon_hour = Inl (ValueError ''Radiation out of range'')
   \<and> radiation_s (the (hours (snd noon_hour) 447084)) = None
   \<and> solar_radiation default_flags (snd noon_hour)
        ((the (hours (snd noon_hour) 447084))\<lparr>radiation_s := Some 1\<rparr>) = Inr 1
   \<and> fst night_hour = Inr (projr (fst night_hour))
   \<and> radiation_s (projr (fst night_hour)) = Some 1
   \<and> hours (snd night_hour) 447084 = Some (projr (fst night_hour))
   \<and> R_so (snd night_hour) (projr (fst night_hour)) = Inr 0
   \<and> solar_radiation default_flags (snd night_hour) (projr (fst night_hour))
       = Inl (ValueErrorNum '''Lunar' radiation out ot range. radiation ='' 1
                '' should be near 0.'')"
proof -
  define hn where "hn = (TimeEntry HourEntry (TDatetime new_year_noon) meridian_station)
                   \<lparr>temp_min := None, temp_max := None, temp_mean := None,
                    humidity_mean := None, wind_speed := None\<rparr>"
  define hm where "hm = (TimeEntry HourEntry (TDatetime new_year_noon) equator_station)
                   \<lparr>temp_min := None, temp_max := None, temp_mean := None,
                    humidity_mean := None, wind_speed := None\<rparr>"
  have hn: "entry_class hn = HourEntry" "time hn = TDatetime new_year_noon"
    "radiation_s hn = None"
    by (simp_all add: hn_def TimeEntry_def)
  have hm: "entry_class hm = HourEntry" "time hm = TDatetime new_year_noon"
    by (simp_all add: hm_def TimeEntry_def)
  let ?sn = "store_hour meridian_station 447084 hn"
  let ?sm = "store_hour equator_station 447084 hm"
  let ?sm' = "store_hour equator_station 447084 (hm\<lparr>radiation_s := Some 1\<rparr>)"
  from noon_R_a [of ?sn hn new_year_noon] hn obtain ra
    where ra: "HourEntry_R_a ?sn hn = Inr ra" "2 \<le> ra" by auto
  have "of_int 15 / 10 ^ 1 \<le> 0.75 * ra" using ra(2) by simp
  from py_round_ge [OF this] have rso: "1.5 \<le> py_round (0.75 * ra) 1" by simp
  have so_n: "R_so ?sn hn = Inr (py_round (0.75 * ra) 1)"
    by (rule hour_class_R_so [OF hn(1) _ ra(1)]) simp
  have noon: "noon_hour = (Inl (ValueError ''Radiation out of range''), ?sn)"
    using so_n rso
    by (simp add: noon_hour_def hour_entry_at_unfold Let_def default_flags_def flip: hn_def)
  have so_n': "R_so ?sn (hn\<lparr>radiation_s := Some 1\<rparr>) = Inr (py_round (0.75 * ra) 1)"
    using so_n by simp
  have sib: "solar_radiation default_flags ?sn (hn\<lparr>radiation_s := Some 1\<rparr>) = Inr 1"
    using so_n' rso hn(1)
    by (simp add: solar_radiation_def HourEntry_solar_radiation_def default_flags_def
          divide_le_0_iff)
  have night0: "HourEntry_R_a ?sm hm = Inr 0"
    by (rule night_R_a [of _ _ new_year_noon]) (simp_all add: hm)
  have so_m: "R_so ?sm hm = Inr 0"
    using hour_class_R_so [OF hm(1) _ night0] by simp
  have night: "night_hour = (Inr (hm\<lparr>radiation_s := Some 1\<rparr>), ?sm')"
    using so_m
    by (simp add: night_hour_def hour_entry_at_unfold Let_def default_flags_def flip: hm_def)
  have "HourEntry_R_a ?sm' (hm\<lparr>radiation_s := Some 1\<rparr>) = Inr 0"
    by (rule night_R_a [of _ _ new_year_noon]) (simp_all add: hm)
  then have so_m': "R_so ?sm' (hm\<lparr>radiation_s := Some 1\<rparr>) = Inr 0"
    using hour_class_R_so [of "hm\<lparr>radiation_s := Some 1\<rparr>" ?sm' 0] hm(1) by simp
  have lunar: "solar_radiation default_flags ?sm' (hm\<lparr>radiation_s := Some 1\<rparr>)
       = Inl (ValueErrorNum '''Lunar' radiation out ot range. radiation ='' 1
                '' should be near 0.'')"
    using so_m' hm(1)
    by (simp add: solar_radiation_def HourEntry_solar_radiation_def default_flags_def)
  show ?thesis
    using sib lunar so_m' hn(3) by (simp add: noon night)
qed

section \<open>Sunset hour angle and extraterrestrial radiation\<close>

subsection \<open>Bounds on pi\<close>

lemma cos_taylor_12:
  assumes "0 < (x::real)"
  shows "\<bar>cos x - (\<Sum>m<12. cos_coeff m * x ^ m)\<bar> \<le> x ^ 12 / fact 12"
proof -
  from Maclaurin_cos_expansion2 [OF assms, of 12] obtain t
    where t: "cos x = (\<Sum>m<12. cos_coeff m * x ^ m)
                 + cos (t + 1 / 2 * real 12 * pi) / fact 12 * x ^ 12"
    by auto
  let ?c = "cos (t + 1 / 2 * real 12 * pi)"
  have "\<bar>?c / fact 12 * x ^ 12\<bar> = \<bar>?c\<bar> * (x ^ 12 / fact 12)"
    using assms by (simp add: abs_mult)
  also have "\<dots> \<le> 1 * (x ^ 12 / fact 12)"
    using assms by (intro mult_right_mono) simp_all
  finally show ?thesis using t by simp
qed

lemma cos_poly_12:
  "(\<Sum>m<12. cos_coeff m * x ^ m) =
     1 - x ^ 2 / 2 + x ^ 4 / 24 - x ^ 6 / 720 + x ^ 8 / 40320 - x ^ 10 / 3628800"
proof -
  have s: "{..<12::nat} = {0, 1, 2, 3, 4, 5, 6, 7, 8, 9, 10, 11}" by auto arith
  show ?thesis unfolding s by (simp add: cos_coeff_def fact_numeral)
qed

lemma fact_12: "fact 12 = (479001600::real)"
  by (simp add: fact_numeral)

lemma cos_157075_pos: "0 < cos (1.57075::real)"
proof -
  have "\<bar>cos (1.57075::real) - (\<Sum>m<12. cos_coeff m * 1.57075 ^ m)\<bar> \<le> 1.57075 ^ 12 / fact 12"
    by (rule cos_taylor_12) simp
  moreover have "(1.57075::real) ^ 12 / fact 12 <
      1 - 1.57075 ^ 2 / 2 + 1.57075 ^ 4 / 24 - 1.57075 ^ 6 / 720 + 1.57075 ^ 8 / 40320
        - 1.57075 ^ 10 / 3628800"
    unfolding fact_12 by (simp add: power_divide)
  ultimately show ?thesis unfolding cos_poly_12 by linarith
qed

lemma cos_15708_neg: "cos (1.5708::real) < 0"
proof -
  have "\<bar>cos (1.5708::real) - (\<Sum>m<12. cos_coeff m * 1.5708 ^ m)\<bar> \<le> 1.5708 ^ 12 / fact 12"
    by (rule cos_taylor_12) simp
  moreover have "1 - 1.5708 ^ 2 / 2 + 1.5708 ^ 4 / 24 - 1.5708 ^ 6 / 720 + 1.5708 ^ 8 / 40320
        - 1.5708 ^ 10 / 3628800 + (1.5708::real) ^ 12 / fact 12 < 0"
    unfolding fact_12 by (simp add: power_divide)
  ultimately show ?thesis unfolding cos_poly_12 by linarith
qed

lemma pi_half_bounds: "1.57075 < pi / 2" "pi / 2 < 1.5708"
proof -
  show "1.57075 < pi / 2"
  proof (rule ccontr)
    assume "\<not> 1.57075 < pi / 2"
    then have "pi / 2 \<le> 1.57075" by simp
    moreover have "(1.57075::real) \<le> pi" using pi_ge_two by simp
    ultimately have "cos 1.57075 \<le> cos (pi / 2)"
      using pi_gt_zero by (intro cos_monotone_0_pi_le) simp_all
    with cos_157075_pos show False by simp
  qed
  show "pi / 2 < 1.5708"
  proof (rule ccontr)
    assume "\<not> pi / 2 < 1.5708"
    then have "1.5708 \<le> pi / 2" by simp
    then have "cos (pi / 2) \<le> cos 1.5708"
      using pi_gt_zero by (intro cos_monotone_0_pi_le) simp_all
    with cos_15708_neg show False by simp
  qed
qed

lemma pi_bounds: "3.1415 < pi" "pi < 3.1416"
  using pi_half_bounds by simp_all

subsection \<open>The north pole at midsummer\<close>

lemma round_half_pi_value: "py_round (pi / 2) 3 = 1.571"
proof -
  have "of_int 1571 / 10 ^ 3 - 1 / (2 * 10 ^ 3) < pi / 2"
    "pi / 2 < of_int 1571 / 10 ^ 3 + 1 / (2 * 10 ^ 3)"
    using pi_half_bounds by simp_all
  from py_round_eq [OF this] show ?thesis by simp
qed

lemma pole_station_simps [simp]:
  "latitude pole_station = 90"
  "latitude_rad pole_station = 1.571"
  "altitude pole_station = 0"
  using round_half_pi_value by (simp_all add: pole_station_def Station_def)

lemma cos_lower_of_abs:
  assumes "\<bar>x\<bar> \<le> (b::real)" shows "1 - b\<^sup>2 / 2 \<le> cos x"
proof -
  have "\<bar>x\<bar> \<le> \<bar>b\<bar>" using assms by simp
  then have "x\<^sup>2 \<le> b\<^sup>2" by (simp only: abs_le_square_iff)
  with cos_lower_quadratic [of x] show ?thesis by simp
qed

lemma tan_pole: "3960 \<le> - tan (1.571::real)"
proof -
  define eps :: real where "eps = 1.571 - pi / 2"
  have eps: "0.0002 < eps" "eps < 0.00025" using pi_half_bounds by (simp_all add: eps_def)
  have e: "(1.571::real) = pi / 2 + eps" by (simp add: eps_def)
  have s: "sin (1.571::real) = cos eps" by (subst e) (simp add: sin_add)
  have c: "cos (1.571::real) = - sin eps" by (subst e) (simp add: cos_add)
  have se0: "0 < sin eps" using eps pi_ge_two by (intro sin_gt_zero) simp_all
  have se1: "sin eps \<le> 0.00025" using sin_x_le_x [of eps] eps by simp
  have "\<bar>eps\<bar> \<le> 1 / 10" using eps by simp
  from cos_lower_of_abs [OF this] have ce: "0.99 \<le> cos eps"
    by (simp add: power2_eq_square)
  have "- tan (1.571::real) = cos eps / sin eps" unfolding tan_def s c by simp
  moreover have "0.99 / 0.00025 \<le> cos eps / sin eps"
    using ce se0 se1 by (intro frac_le) simp_all
  ultimately show ?thesis by simp
qed


lemma sin_0409_lower: "0.39 \<le> sin (0.409::real)"
proof -
  have "(0.409::real) - 0.409 ^ 3 / 6 \<le> sin 0.409" by (rule sin_lower_cubic) simp
  moreover have "(0.39::real) \<le> 0.409 - 0.409 ^ 3 / 6" by (simp add: power3_eq_cube)
  ultimately show ?thesis by linarith
qed

lemma tan_0409_lower: "0.39 \<le> tan (0.409::real)"
proof -
  have c0: "0 < cos (0.409::real)" using pi_ge_two by (intro cos_gt_zero) simp_all
  have c1: "cos (0.409::real) \<le> 1" by simp
  have "0.39 / 1 \<le> sin (0.409::real) / cos 0.409"
    using sin_0409_lower c0 c1 by (intro frac_le) simp_all
  then show ?thesis by (simp add: tan_def)
qed

lemma declination_midsummer:
  assumes "day_number e = 172" shows "solar_declination e = 0.409"
proof -
  define th :: real where "th = (2 * pi / 365) * 172 - 1.39"
  define d :: real where "d = th - pi / 2"
  have "d = pi * (323 / 730) - 1.39" by (simp add: d_def th_def field_simps)
  with pi_bounds have d: "\<bar>d\<bar> \<le> 1 / 1000" by simp
  have "sin th = cos d" unfolding d_def using cos_sin_eq [of "th - pi / 2"] by simp
  moreover from cos_lower_of_abs [OF d] have "0.999 \<le> cos d" by (simp add: power2_eq_square)
  ultimately have s: "0.999 \<le> sin th" by simp
  define sv where "sv = sin th"
  have sv: "0.999 \<le> sv" "sv \<le> 1" using s by (simp_all add: sv_def)
  have "of_int 409 / 10 ^ 3 - 1 / (2 * 10 ^ 3) < 0.409 * sv"
    "0.409 * sv < of_int 409 / 10 ^ 3 + 1 / (2 * 10 ^ 3)"
    using sv by simp_all
  from py_round_eq [OF this] show ?thesis
    using assms by (simp add: solar_declination_def th_def sv_def)
qed

lemma acos_argument_midsummer_pole:
  "1 < - 1 * tan (1.571::real) * tan 0.409"
proof -
  have "3960 * 0.39 \<le> (- tan (1.571::real)) * tan 0.409"
    by (rule mult_lower2 [OF _ tan_pole _ tan_0409_lower]) simp_all
  then show ?thesis by simp
qed

text \<open>
  The claim as stated fails at latitude 90 on day 172: the station is constructed, the
  day entry is created, and both \<^verbatim>\<open>sunset_hour_angle()\<close> and \<^verbatim>\<open>R_a()\<close> raise the
  ValueError of \<^verbatim>\<open>math.acos\<close>, whose argument exceeds 1.
\<close>

theorem sunset_hour_angle_counterexample:
  "Station (PFloat 90) (PFloat 0) (PInt 0) 2 345 = Inr pole_station
   \<and> fst midsummer_day = Inr (projr (fst midsummer_day))
   \<and> day_number (projr (fst midsummer_day)) = 172
   \<and> sunset_hour_angle (snd midsummer_day) (projr (fst midsummer_day))
       = Inl (ValueError ''math domain error'')
   \<and> R_a (snd midsummer_day) (projr (fst midsummer_day))
       = Inl (ValueError ''math domain error'')"
proof -
  let ?e = "projr (fst midsummer_day)" and ?st = "snd midsummer_day"
  have e: "fst midsummer_day = Inr ?e" "day_number ?e = 172" "entry_class ?e = DayEntry"
    "latitude_rad ?st = 1.571"
    by (simp_all add: midsummer_day_def day_entry_plain)
  have d: "solar_declination ?e = 0.409" by (rule declination_midsummer [OF e(2)])
  have ss: "sunset_hour_angle ?st ?e = Inl (ValueError ''math domain error'')"
    using acos_argument_midsummer_pole
    by (simp add: sunset_hour_angle_def math_acos_def e(4) d)
  then have "R_a ?st ?e = Inl (ValueError ''math domain error'')"
    using e(3) by (simp add: R_a_def TimeEntry_R_a_def)
  moreover have "Station (PFloat 90) (PFloat 0) (PInt 0) 2 345 = Inr pole_station"
    by (simp add: pole_station_def Station_def)
  ultimately show ?thesis using e ss by simp
qed

subsection \<open>Inside the domain of the arc cosine\<close>

lemma x_cos_le_sin:
  assumes "0 \<le> (t::real)" "t \<le> pi" shows "t * cos t \<le> sin t"
proof (cases "t \<le> 2")
  case False
  then have "pi / 2 \<le> t" using pi_less_4 by simp
  then have "cos t \<le> cos (pi / 2)"
    using assms pi_gt_zero by (intro cos_monotone_0_pi_le) simp_all
  then have "cos t \<le> 0" by simp
  then have "t * cos t \<le> 0" using assms(1) by (simp add: mult_nonneg_nonpos)
  moreover have "0 \<le> sin t" using assms by (intro sin_ge_zero) simp_all
  ultimately show ?thesis by simp
next
  case True
  show ?thesis
  proof (cases "t = 0")
    case True then show ?thesis by simp
  next
    case False
    with assms have t0: "0 < t" by simp
    from Maclaurin_cos_expansion2 [OF t0, of 4] obtain u
      where u: "cos t = (\<Sum>m<4. cos_coeff m * t ^ m) + cos (u + 1 / 2 * real 4 * pi) / fact 4 * t ^ 4"
      by auto
    have s4: "{..<4::nat} = {0, 1, 2, 3}" by auto
    have p: "(\<Sum>m<4. cos_coeff m * t ^ m) = 1 - t ^ 2 / 2"
      unfolding s4 by (simp add: cos_coeff_def fact_numeral)
    have "cos (u + 1 / 2 * real 4 * pi) / fact 4 * t ^ 4 \<le> 1 / fact 4 * t ^ 4"
      by (intro mult_right_mono divide_right_mono) simp_all
    moreover have "fact 4 = (24::real)" by (simp add: fact_numeral)
    ultimately have c: "cos t \<le> 1 - t ^ 2 / 2 + t ^ 4 / 24" using u p by simp
    have "t * cos t \<le> t * (1 - t ^ 2 / 2 + t ^ 4 / 24)"
      using c t0 by (intro mult_left_mono) simp_all
    moreover have "t * (1 - t ^ 2 / 2 + t ^ 4 / 24) \<le> t - t ^ 3 / 6"
    proof -
      have "t ^ 2 \<le> 2 ^ 2" using True t0 by (intro power_mono) simp_all
      then have "t ^ 2 / 24 \<le> 1 / 3" by simp
      then have "t ^ 3 * (t ^ 2 / 24) \<le> t ^ 3 * (1 / 3)"
        using t0 by (intro mult_left_mono) simp_all
      then have "t ^ 5 / 24 \<le> t ^ 3 / 3" by (simp add: power_add [symmetric] flip: power_add)
      then show ?thesis by (simp add: algebra_simps power_add eval_nat_numeral)
    qed
    moreover have "t - t ^ 3 / 6 \<le> sin t" by (rule sin_lower_cubic) (use t0 in simp)
    ultimately show ?thesis by linarith
  qed
qed

lemma latitude_rad_grid:
  assumes "- 90 \<le> la" "la \<le> 90"
  shows "\<exists>k::int. py_round (pi / 180 * la) 3 = of_int k / 1000 \<and> - 1571 \<le> k \<and> k \<le> 1571"
proof -
  obtain k :: int where k: "py_round (pi / 180 * la) 3 = of_int k / 10 ^ 3"
    using py_round_grid by blast
  have "pi / 180 * la \<le> pi / 180 * 90"
    using assms pi_gt_zero by (intro mult_left_mono) simp_all
  then have "pi / 180 * la \<le> pi / 2" by simp
  from py_round_mono [OF this, of 3] have up: "py_round (pi / 180 * la) 3 \<le> 1.571"
    by (simp add: round_half_pi_value)
  have "of_int (- 1571) / 10 ^ 3 - 1 / (2 * 10 ^ 3) < - (pi / 2)"
    "- (pi / 2) < of_int (- 1571) / 10 ^ 3 + 1 / (2 * 10 ^ 3)"
    using pi_half_bounds by simp_all
  from py_round_eq [OF this] have m: "py_round (- (pi / 2)) 3 = - 1.571" by simp
  have "pi / 180 * (- 90) \<le> pi / 180 * la"
    using assms pi_gt_zero by (intro mult_left_mono) simp_all
  then have "- (pi / 2) \<le> pi / 180 * la" by simp
  from py_round_mono [OF this, of 3] have lo: "- 1.571 \<le> py_round (pi / 180 * la) 3"
    by (simp add: m)
  from up lo k have "real_of_int k \<le> 1571" "- 1571 \<le> real_of_int k" by simp_all
  then have "k \<le> 1571" "- 1571 \<le> k" by linarith+
  with k show ?thesis by auto
qed

lemma declination_grid:
  "\<exists>j::int. solar_declination e = of_int j / 1000 \<and> - 409 \<le> j \<and> j \<le> 409"
proof -
  obtain j :: int where j: "solar_declination e = of_int j / 10 ^ 3"
    unfolding solar_declination_def using py_round_grid by blast
  from decl_bounds [of e] j have "real_of_int j \<le> 409" "- 409 \<le> real_of_int j" by simp_all
  then have "j \<le> 409" "- 409 \<le> j" by linarith+
  with j show ?thesis by auto
qed

lemma tan_abs_small:
  assumes "\<bar>x\<bar> < pi / 2" shows "tan \<bar>x\<bar> = \<bar>tan x\<bar>" "0 < cos x"
proof -
  show c: "0 < cos x" using assms by (intro cos_gt_zero_pi) (simp_all add: abs_less_iff)
  show "tan \<bar>x\<bar> = \<bar>tan x\<bar>"
  proof (cases "0 \<le> x")
    case True
    with assms have "0 \<le> tan x" by (intro tan_pos_pi2_le) simp_all
    with True show ?thesis by simp
  next
    case False
    with assms have "0 \<le> tan (- x)" by (intro tan_pos_pi2_le) simp_all
    with False show ?thesis by simp
  qed
qed

lemma cos_1570_lower: "0.0007 \<le> cos (1.570::real)"
proof -
  define y :: real where "y = pi / 2 - 1.570"
  have y: "0.00075 < y" "y < 0.0008" using pi_half_bounds by (simp_all add: y_def)
  have "cos (1.570::real) = sin y" unfolding y_def by (simp add: sin_cos_eq)
  moreover have "y - y ^ 3 / 6 \<le> sin y" by (rule sin_lower_cubic) (use y in simp)
  moreover have "y ^ 3 \<le> (1 / 1000) ^ 3" using y by (intro power_mono) simp_all
  ultimately show ?thesis using y by (simp add: power3_eq_cube)
qed

lemma tan_product_bound:
  fixes ka kb :: int and a b :: real
  assumes a: "a = of_int ka / 1000" "0 \<le> ka" "ka \<le> 1570"
    and b: "b = of_int kb / 1000" "0 \<le> kb" "kb \<le> 409"
    and le: "tan a * tan b \<le> 1"
  shows "tan a * tan b \<le> 0.9999"
proof -
  have ar: "0 \<le> a" "a \<le> 1.570" using a by simp_all
  have br: "0 \<le> b" "b \<le> 0.409" using b by simp_all
  have ca: "0 < cos a" using ar pi_half_bounds by (intro cos_gt_zero_pi) simp_all
  have cb: "0 < cos b" using br pi_half_bounds by (intro cos_gt_zero_pi) simp_all
  define P where "P = cos a * cos b"
  have P: "0 < P" "P \<le> 1"
    unfolding P_def using ca cb by (simp_all add: mult_le_one)
  have tt: "tan a * tan b = sin a * sin b / P"
    by (simp add: tan_def P_def)
  have cab: "cos (a + b) = P - sin a * sin b" by (simp add: cos_add P_def)
  from le have "sin a * sin b \<le> P" using P(1) by (simp add: tt pos_divide_le_eq)
  then have c0: "0 \<le> cos (a + b)" by (simp add: cab)
  have "a + b \<le> pi / 2"
  proof (rule ccontr)
    assume "\<not> a + b \<le> pi / 2"
    then have "pi / 2 < a + b" by simp
    moreover have "a + b \<le> pi" using ar br pi_bounds by simp
    ultimately have "cos (a + b) < cos (pi / 2)"
      using pi_gt_zero by (intro cos_monotone_0_pi) simp_all
    with c0 show False by simp
  qed
  then have "real_of_int (ka + kb) / 1000 < 1.5708"
    using pi_half_bounds a(1) b(1) by simp
  then have "real_of_int (ka + kb) < 1571" by simp
  then have "ka + kb \<le> 1570" by linarith
  then have "real_of_int (ka + kb) \<le> 1570" by linarith
  then have ab: "a + b \<le> 1.570" using a(1) b(1) by simp
  have "cos 1.570 \<le> cos (a + b)"
    using ab ar br pi_bounds by (intro cos_monotone_0_pi_le) simp_all
  with cos_1570_lower have c1: "0.0007 \<le> cos (a + b)" by simp
  then have "sin a * sin b \<le> P - 0.0007" by (simp add: cab)
  also have "\<dots> \<le> P - 0.0007 * P" using P by simp
  also have "\<dots> = 0.9993 * P" by simp
  finally have "sin a * sin b / P \<le> 0.9993" using P(1) by (simp add: pos_divide_le_eq)
  then show ?thesis by (simp add: tt)
qed

lemma arccos_upper:
  assumes "- 0.9999 \<le> x" "x \<le> 1" shows "arccos x \<le> 3.141"
proof -
  define th :: real where "th = pi - 3.141"
  have th: "0 < th" "th < 0.001" using pi_bounds by (simp_all add: th_def)
  then have "\<bar>th\<bar> \<le> 1 / 1000" by simp
  from cos_lower_of_abs [OF this] have "0.9999 \<le> cos th" by (simp add: power2_eq_square)
  moreover have "cos (3.141::real) = - cos th"
    unfolding th_def using cos_periodic_pi [of "- th"] by (simp add: th_def)
  ultimately have "cos 3.141 \<le> x" using assms by simp
  then have "cos 3.141 \<le> cos (arccos x)" using assms by (simp add: cos_arccos)
  moreover have "0 \<le> arccos x" "arccos x \<le> pi"
    using assms by (simp_all add: arccos_lbound arccos_ubound)
  ultimately show ?thesis
    using pi_bounds cos_mono_le_eq [of "3.141" "arccos x"] by simp
qed

lemma tan_grid_lower:
  fixes b :: real assumes "0.001 \<le> b" "b \<le> 0.409" shows "0.0009 \<le> tan b"
proof -
  have "tan 0.001 \<le> tan b"
    using assms pi_half_bounds by (intro tan_mono_le) simp_all
  moreover have "0.0009 \<le> tan (0.001::real)"
  proof -
    have c0: "0 < cos (0.001::real)" using pi_ge_two by (intro cos_gt_zero) simp_all
    have "(0.001::real) - 0.001 ^ 3 / 6 \<le> sin 0.001" by (rule sin_lower_cubic) simp
    then have s: "0.0009 \<le> sin (0.001::real)" by (simp add: power3_eq_cube)
    have "0.0009 / 1 \<le> sin (0.001::real) / cos 0.001"
      using s c0 by (intro frac_le) simp_all
    then show ?thesis by (simp add: tan_def)
  qed
  ultimately show ?thesis by linarith
qed

lemma sin_cubic_error: "\<bar>sin h - h\<bar> \<le> \<bar>h\<bar> ^ 3 / 6" for h :: real
proof (cases "0 \<le> h")
  case True
  with sin_lower_cubic [OF True] sin_x_le_x [OF True] show ?thesis by simp
next
  case False
  then have n: "0 \<le> - h" by simp
  from sin_lower_cubic [OF n] sin_x_le_x [OF n] False show ?thesis
    by (simp add: power3_eq_cube)
qed

lemma rounded_angle_error:
  fixes w h :: real
  assumes "0 \<le> w" "w \<le> pi" "\<bar>h\<bar> \<le> 1 / 2000"
  shows "- (1 / 1000000) \<le> sin (w + h) - (w + h) * cos w"
proof -
  have g: "w * cos w \<le> sin w" by (rule x_cos_le_sin [OF assms(1,2)])
  have eq: "sin (w + h) - (w + h) * cos w
      = (sin w - w * cos w) + sin w * (cos h - 1) + cos w * (sin h - h)"
    by (simp add: sin_add algebra_simps)
  have c1: "- (h\<^sup>2 / 2) \<le> cos h - 1" using cos_lower_quadratic [of h] by simp
  have "\<bar>h\<bar> \<le> \<bar>1 / 2000 :: real\<bar>" using assms(3) by simp
  then have h2: "h\<^sup>2 \<le> (1 / 2000)\<^sup>2" by (simp only: abs_le_square_iff)
  have s0: "0 \<le> sin w" using assms by (intro sin_ge_zero)
  have "sin w * (cos h - 1) \<ge> 1 * (cos h - 1)"
    using s0 by (intro mult_right_mono_neg) simp_all
  with c1 h2 have t1: "- (1 / 8000000) \<le> sin w * (cos h - 1)"
    by (simp add: power2_eq_square)
  have "\<bar>h\<bar> ^ 3 \<le> (1 / 2000) ^ 3" using assms(3) by (intro power_mono) simp_all
  with sin_cubic_error [of h] have d: "\<bar>sin h - h\<bar> \<le> 1 / 8000000"
    by (simp add: power3_eq_cube)
  define z where "z = cos w * (sin h - h)"
  have "\<bar>z\<bar> \<le> 1 * \<bar>sin h - h\<bar>"
    unfolding z_def abs_mult by (intro mult_right_mono) simp_all
  with d have "\<bar>z\<bar> \<le> 1 / 8000000" by simp
  then have "- (1 / 8000000) \<le> z" by (simp add: abs_le_iff)
  then have t2: "- (1 / 8000000) \<le> cos w * (sin h - h)" by (simp only: z_def)
  from g t1 t2 show ?thesis unfolding eq by linarith
qed

lemma py_round_nonneg:
  assumes "- (1 / 20) < y" shows "0 \<le> py_round y 1"
proof -
  have "y * 10 ^ 1 - 1 / 2 \<le> of_int (round_half_even (y * 10 ^ 1))" by (rule rhe_lower)
  with assms have "- 1 < real_of_int (round_half_even (y * 10 ^ 1))" by simp
  then have "0 \<le> round_half_even (y * 10 ^ 1)" by linarith
  then show ?thesis by (simp add: py_round_def)
qed

lemma trig_1571:
  "- 0.00025 \<le> cos (1.571::real)" "cos (1.571::real) < 0"
  "0.99 \<le> sin (1.571::real)" "sin (1.571::real) \<le> 1"
proof -
  define eps :: real where "eps = 1.571 - pi / 2"
  have eps: "0.0002 < eps" "eps < 0.00025" using pi_half_bounds by (simp_all add: eps_def)
  have e: "(1.571::real) = pi / 2 + eps" by (simp add: eps_def)
  have s: "sin (1.571::real) = cos eps" by (subst e) (simp add: sin_add)
  have c: "cos (1.571::real) = - sin eps" by (subst e) (simp add: cos_add)
  have se0: "0 < sin eps" using eps pi_ge_two by (intro sin_gt_zero) simp_all
  have se1: "sin eps \<le> 0.00025" using sin_x_le_x [of eps] eps by simp
  have "\<bar>eps\<bar> \<le> 1 / 10" using eps by simp
  from cos_lower_of_abs [OF this] have ce: "0.99 \<le> cos eps"
    by (simp add: power2_eq_square)
  show "- 0.00025 \<le> cos (1.571::real)" unfolding c using se1 by simp
  show "cos (1.571::real) < 0" unfolding c using se0 by simp
  show "0.99 \<le> sin (1.571::real)" unfolding s using ce by simp
  show "sin (1.571::real) \<le> 1" by simp
qed

lemma pole_forces_equinox:
  fixes phi delta :: real and j :: int
  assumes "phi = 1.571 \<or> phi = - 1.571" "delta = of_int j / 1000" "- 409 \<le> j" "j \<le> 409"
    and "\<bar>tan phi * tan delta\<bar> \<le> 1"
  shows "j = 0"
proof (rule ccontr)
  assume "j \<noteq> 0"
  then have "1 \<le> \<bar>j\<bar>" by simp
  then have "1 \<le> \<bar>real_of_int j\<bar>" by linarith
  then have d1: "0.001 \<le> \<bar>delta\<bar>" using assms(2) by simp
  have "\<bar>real_of_int j\<bar> \<le> 409" using assms(3,4) by linarith
  then have d2: "\<bar>delta\<bar> \<le> 0.409" using assms(2) by simp
  then have "\<bar>delta\<bar> < pi / 2" using pi_half_bounds by simp
  from tan_abs_small(1) [OF this] have "\<bar>tan delta\<bar> = tan \<bar>delta\<bar>" by simp
  with tan_grid_lower [OF d1 d2] have td: "0.0009 \<le> \<bar>tan delta\<bar>" by simp
  have tp: "3960 \<le> \<bar>tan phi\<bar>"
  proof -
    from assms(1) consider "phi = 1.571" | "phi = - 1.571" by blast
    then show ?thesis
    proof cases
      case 1
      have "3960 \<le> - tan phi" unfolding 1 by (rule tan_pole)
      then show ?thesis by simp
    next
      case 2
      have "tan phi = - tan 1.571" unfolding 2 by (rule tan_minus)
      with tan_pole show ?thesis by simp
    qed
  qed
  have "3960 * 0.0009 \<le> \<bar>tan phi\<bar> * \<bar>tan delta\<bar>"
    by (rule mult_lower2 [OF _ tp _ td]) simp_all
  then have "1 < \<bar>tan phi * tan delta\<bar>" by (simp add: abs_mult)
  with assms(5) show False by simp
qed

lemma acos_argument_lower:
  fixes phi delta :: real and k j :: int
  assumes "phi = of_int k / 1000" "- 1570 \<le> k" "k \<le> 1570"
    and "delta = of_int j / 1000" "- 409 \<le> j" "j \<le> 409"
    and "\<bar>tan phi * tan delta\<bar> \<le> 1"
  shows "tan phi * tan delta \<le> 0.9999"
proof -
  have "\<bar>real_of_int k\<bar> \<le> 1570" using assms(2,3) by linarith
  then have p: "\<bar>phi\<bar> \<le> 1.570" using assms(1) by simp
  then have p2: "\<bar>phi\<bar> < pi / 2" using pi_half_bounds by simp
  have "\<bar>real_of_int j\<bar> \<le> 409" using assms(5,6) by linarith
  then have d: "\<bar>delta\<bar> \<le> 0.409" using assms(4) by simp
  then have d2: "\<bar>delta\<bar> < pi / 2" using pi_half_bounds by simp
  have a: "\<bar>phi\<bar> = of_int \<bar>k\<bar> / 1000" "0 \<le> \<bar>k\<bar>" "\<bar>k\<bar> \<le> 1570"
    using assms(1-3) by simp_all
  have b: "\<bar>delta\<bar> = of_int \<bar>j\<bar> / 1000" "0 \<le> \<bar>j\<bar>" "\<bar>j\<bar> \<le> 409"
    using assms(4-6) by simp_all
  have "tan \<bar>phi\<bar> * tan \<bar>delta\<bar> = \<bar>tan phi * tan delta\<bar>"
    by (simp add: tan_abs_small(1) [OF p2] tan_abs_small(1) [OF d2] abs_mult)
  with assms(7) have "tan \<bar>phi\<bar> * tan \<bar>delta\<bar> \<le> 1" by simp
  from tan_product_bound [OF a b this] have "\<bar>tan phi * tan delta\<bar> \<le> 0.9999"
    by (simp add: tan_abs_small(1) [OF p2] tan_abs_small(1) [OF d2] abs_mult)
  then show ?thesis by (simp add: abs_le_iff)
qed

lemma scaled_lower:
  fixes c f :: real
  assumes "0 \<le> c" "c \<le> 61" "- (3 / 10000) \<le> f"
  shows "- (1 / 20) < c * f"
proof (cases "0 \<le> f")
  case True
  then have "0 \<le> c * f" using assms(1) by simp
  then show ?thesis by simp
next
  case False
  then have "61 * f \<le> c * f" using assms(2) by (intro mult_right_mono_neg) simp_all
  with assms(3) show ?thesis by simp
qed

lemma sunset_in_domain:
  assumes la: "- 90 \<le> la" "la \<le> 90" "latitude_rad st = py_round (pi / 180 * la) 3"
    and dom: "- 1 \<le> - 1 * tan (latitude_rad st) * tan (solar_declination e)"
      "- 1 * tan (latitude_rad st) * tan (solar_declination e) \<le> 1"
  shows "\<exists>ws ra. sunset_hour_angle st e = Inr ws \<and> 0 \<le> ws \<and> ws \<le> pi
           \<and> TimeEntry_R_a st e = Inr ra \<and> 0 \<le> ra"
proof -
  define phi where "phi = latitude_rad st"
  define delta where "delta = solar_declination e"
  define x where "x = - 1 * tan phi * tan delta"
  define w where "w = arccos x"
  define ws where "ws = py_round w 3"
  have x: "- 1 \<le> x" "x \<le> 1" using dom by (simp_all add: x_def phi_def delta_def)
  then have ax: "\<bar>tan phi * tan delta\<bar> \<le> 1" by (simp add: x_def abs_le_iff)
  from latitude_rad_grid [OF la(1,2)] la(3) obtain k :: int
    where k: "phi = of_int k / 1000" "- 1571 \<le> k" "k \<le> 1571"
    by (auto simp: phi_def)
  from declination_grid [of e] obtain j :: int
    where j: "delta = of_int j / 1000" "- 409 \<le> j" "j \<le> 409"
    by (auto simp: delta_def)
  have w: "0 \<le> w" "w \<le> pi" "cos w = x"
    using x by (simp_all add: w_def arccos_lbound arccos_ubound cos_arccos)
  have ss: "sunset_hour_angle st e = Inr ws"
    using x by (simp add: sunset_hour_angle_def math_acos_def ws_def w_def x_def
        phi_def delta_def)
  consider (inner) "- 1570 \<le> k" "k \<le> 1570" | (pole) "k = 1571 \<or> k = - 1571"
    using k(2,3) by linarith
  then have main: "- 0.9999 \<le> x \<and>
      - (3 / 10000) \<le> ws * sin phi * sin delta + cos phi * cos delta * sin ws"
  proof cases
    case inner
    from acos_argument_lower [OF k(1) inner j ax]
    have xl: "- 0.9999 \<le> x" by (simp add: x_def)
    have "\<bar>real_of_int k\<bar> \<le> 1570" using inner by linarith
    then have "\<bar>phi\<bar> < pi / 2" using k(1) pi_half_bounds by simp
    from tan_abs_small(2) [OF this] have cp: "0 < cos phi" .
    have "\<bar>real_of_int j\<bar> \<le> 409" using j(2,3) by linarith
    then have "\<bar>delta\<bar> < pi / 2" using j(1) pi_half_bounds by simp
    from tan_abs_small(2) [OF this] have cd: "0 < cos delta" .
    define B where "B = cos phi * cos delta"
    have B: "0 < B" "B \<le> 1" unfolding B_def using cp cd by (simp_all add: mult_le_one)
    define S where "S = sin phi * sin delta"
    have "x = - S / B" by (simp add: x_def tan_def B_def S_def)
    then have A: "S = - (x * B)" using B(1) by (simp add: field_simps)
    define h where "h = ws - w"
    have h: "\<bar>h\<bar> \<le> 1 / 2000"
      unfolding h_def ws_def using py_round_error [of w 3] by simp
    have wsh: "ws = w + h" by (simp add: h_def)
    define y where "y = sin (w + h) - (w + h) * cos w"
    from rounded_angle_error [OF w(1,2) h] have y: "- (1 / 1000000) \<le> y" by (simp add: y_def)
    have "ws * sin phi * sin delta + cos phi * cos delta * sin ws
        = ws * S + B * sin ws" by (simp add: B_def S_def)
    also have "\<dots> = B * y" unfolding A wsh y_def w(3) by (simp add: algebra_simps)
    finally have f: "ws * sin phi * sin delta + cos phi * cos delta * sin ws = B * y" .
    have "- (3 / 10000) \<le> B * y"
    proof (cases "0 \<le> y")
      case True
      then have "0 \<le> B * y" using B(1) by simp
      then show ?thesis by simp
    next
      case False
      then have "1 * y \<le> B * y" using B(2) by (intro mult_right_mono_neg) simp_all
      with y show ?thesis by simp
    qed
    with xl f show ?thesis by simp
  next
    case pole
    then have pp: "phi = 1.571 \<or> phi = - 1.571" using k(1) by auto
    from pole_forces_equinox [OF pp j ax] have d0: "delta = 0" using j(1) by simp
    then have x0: "x = 0" by (simp add: x_def)
    then have wsv: "ws = 1.571"
      by (simp add: ws_def w_def round_half_pi_value)
    have cph: "cos phi = cos 1.571"
    proof -
      from pp consider "phi = 1.571" | "phi = - 1.571" by blast
      then show ?thesis
      proof cases
        case 1 show ?thesis unfolding 1 ..
      next
        case 2 show ?thesis unfolding 2 by (rule cos_minus)
      qed
    qed
    have "ws * sin phi * sin delta + cos phi * cos delta * sin ws
        = cos 1.571 * sin 1.571" unfolding wsv cph d0 by simp
    moreover have "cos (1.571::real) * 1 \<le> cos 1.571 * sin 1.571"
      using trig_1571 by (intro mult_left_mono_neg) simp_all
    ultimately show ?thesis using x0 trig_1571(1) by simp
  qed
  from arccos_upper [OF conjunct1 [OF main] x(2)] have "w \<le> of_int 3141 / 10 ^ 3"
    by (simp add: w_def)
  from py_round_le [OF this] have "ws \<le> 3.141" by (simp add: ws_def)
  then have ws1: "ws \<le> pi" using pi_bounds by simp
  have "of_int 0 / 10 ^ 3 \<le> w" using w(1) by simp
  from py_round_ge [OF this] have ws0: "0 \<le> ws" by (simp add: ws_def)
  define c where "c = 24 * 60 / pi * 0.0820 * relative_sun_distance e"
  define f where "f = ws * sin phi * sin delta + cos phi * cos delta * sin ws"
  have kk: "0 \<le> 24 * 60 / pi * 0.0820" "24 * 60 / pi * 0.0820 \<le> 59.04"
    using pi_ge_two pi_gt_zero by (simp_all add: field_simps)
  have dr: "0 \<le> relative_sun_distance e" "relative_sun_distance e \<le> 1.033"
    using rsd_bounds [of e] by simp_all
  have c0: "0 \<le> c" unfolding c_def using kk(1) dr(1) by (rule mult_nonneg_nonneg)
  have "c \<le> 59.04 * 1.033" unfolding c_def by (rule mult_upper2 [OF kk dr])
  then have c1: "c \<le> 61" by simp
  have fl: "- (3 / 10000) \<le> f" using main by (simp add: f_def)
  from py_round_nonneg [OF scaled_lower [OF c0 c1 fl]] have "0 \<le> py_round (c * f) 1" .
  moreover have "TimeEntry_R_a st e = Inr (py_round (c * f) 1)"
    using ss by (simp add: TimeEntry_R_a_def c_def f_def phi_def delta_def)
  ultimately show ?thesis using ss ws0 ws1 by blast
qed

text \<open>
  C7, as the code has it. For a station whose latitude in radians is the rounded
  value of a latitude in [-90, 90] and for a day entry of any day number: when
  \<open>- tan (latitude_rad) tan (declination)\<close> lies in [-1, 1], \<^verbatim>\<open>sunset_hour_angle()\<close> returns a
  value in [0, pi] and \<^verbatim>\<open>R_a()\<close> returns a nonnegative value; otherwise both raise the
  ValueError of \<^verbatim>\<open>math.acos\<close>.
\<close>

theorem sunset_hour_angle_and_R_a:
  assumes "- 90 \<le> la" "la \<le> 90" "latitude_rad st = py_round (pi / 180 * la) 3"
    and "entry_class e = DayEntry"
  shows "(- 1 \<le> - 1 * tan (latitude_rad st) * tan (solar_declination e)
          \<and> - 1 * tan (latitude_rad st) * tan (solar_declination e) \<le> 1 \<longrightarrow>
            (\<exists>ws ra. sunset_hour_angle st e = Inr ws \<and> 0 \<le> ws \<and> ws \<le> pi
                     \<and> R_a st e = Inr ra \<and> 0 \<le> ra))
       \<and> (- 1 * tan (latitude_rad st) * tan (solar_declination e) < - 1
          \<or> 1 < - 1 * tan (latitude_rad st) * tan (solar_declination e) \<longrightarrow>
            sunset_hour_angle st e = Inl (ValueError ''math domain error'')
            \<and> R_a st e = Inl (ValueError ''math domain error''))"
proof (intro conjI impI)
  assume "- 1 \<le> - 1 * tan (latitude_rad st) * tan (solar_declination e)
          \<and> - 1 * tan (latitude_rad st) * tan (solar_declination e) \<le> 1"
  then show "\<exists>ws ra. sunset_hour_angle st e = Inr ws \<and> 0 \<le> ws \<and> ws \<le> pi
                     \<and> R_a st e = Inr ra \<and> 0 \<le> ra"
    using sunset_in_domain [OF assms(1-3), of e] assms(4) by (simp add: R_a_def)
next
  assume out: "- 1 * tan (latitude_rad st) * tan (solar_declination e) < - 1
          \<or> 1 < - 1 * tan (latitude_rad st) * tan (solar_declination e)"
  then show "sunset_hour_angle st e = Inl (ValueError ''math domain error'')"
    by (simp add: sunset_hour_angle_def math_acos_def)
  then show "R_a st e = Inl (ValueError ''math domain error'')"
    using assms(4) by (simp add: R_a_def TimeEntry_R_a_def)
qed

theorem sunset_hour_angle_and_R_a_witness:
  "(\<exists>ws ra. sunset_hour_angle (snd calm_day) (projr (fst calm_day)) = Inr ws
            \<and> 0 \<le> ws \<and> ws \<le> pi
            \<and> R_a (snd calm_day) (projr (fst calm_day)) = Inr ra \<and> 0 \<le> ra)
   \<and> sunset_hour_angle (snd midsummer_day) (projr (fst midsummer_day))
       = Inl (ValueError ''math domain error'')
   \<and> R_a (snd midsummer_day) (projr (fst midsummer_day))
       = Inl (ValueError ''math domain error'')"
proof -
  let ?e = "projr (fst calm_day)" and ?st = "snd calm_day"
  let ?f = "projr (fst midsummer_day)" and ?su = "snd midsummer_day"
  have c: "(- 90::real) \<le> 0" "(0::real) \<le> 90" "latitude_rad ?st = py_round (pi / 180 * 0) 3"
    "entry_class ?e = DayEntry" "latitude_rad ?st = 0"
    by (simp_all add: calm_day_def day_entry_plain)
  have m: "(- 90::real) \<le> 90" "(90::real) \<le> 90"
    "latitude_rad ?su = py_round (pi / 180 * 90) 3"
    "entry_class ?f = DayEntry" "day_number ?f = 172" "latitude_rad ?su = 1.571"
    by (simp_all add: midsummer_day_def day_entry_plain round_half_pi_value)
  have "1 < - 1 * tan (latitude_rad ?su) * tan (solar_declination ?f)"
    unfolding m(6) declination_midsummer [OF m(5)] by (rule acos_argument_midsummer_pole)
  then show ?thesis
    using sunset_hour_angle_and_R_a [OF c(1-4)] sunset_hour_angle_and_R_a [OF m(1-4)] c(5)
    by simp
qed

end
